theory Spec2Isabelle
  imports Complex_Main "HOL-Library.Char_ord" "HOL-Library.List_Lexorder"
begin

section \<open>The Ring Window (package buffer)\<close>

text \<open>
  A \<open>time.Time\<close> is held as the number of nanoseconds since the Unix epoch, an unbounded
  \<open>int\<close>; \<open>time.Unix(sec, 0)\<close> is \<open>sec * 10^9\<close>. Internal ids are \<open>int64\<close> in the source
  and \<open>int\<close> here: they are only compared and copied, never computed with. The
  \<open>float64\<close> value of a sample is a payload that is only copied, held as a \<open>real\<close>.
\<close>

record Metric =
  Time :: int
  ResourceID :: int
  Type :: string
  Value :: real

text \<open>
  \<open>maxSize\<close> is a \<open>nat\<close>: the only constructor, \<open>NewRingBuffer\<close>, panics in \<open>make\<close> on a
  negative capacity, so no buffer with a negative \<open>maxSize\<close> exists. The mutex is not
  modelled: every operation holds it from entry to return, so operations are atomic
  steps on the buffer state.
\<close>

record RingBuffer =
  metrics :: "Metric list"
  maxSize :: nat

definition NewRingBuffer :: "int \<Rightarrow> RingBuffer option" where
  "NewRingBuffer n =
     (if n < 0 then None else Some \<lparr>metrics = [], maxSize = nat n\<rparr>)"

definition Add :: "RingBuffer \<Rightarrow> Metric \<Rightarrow> RingBuffer" where
  "Add rb m =
     (if length (metrics rb) \<ge> maxSize rb then rb
      else rb\<lparr>metrics := metrics rb @ [m]\<rparr>)"

definition Flush :: "RingBuffer \<Rightarrow> Metric list \<times> RingBuffer" where
  "Flush rb = (metrics rb, rb\<lparr>metrics := []\<rparr>)"

definition ReadAll :: "RingBuffer \<Rightarrow> Metric list" where
  "ReadAll rb = metrics rb"

section \<open>The Identity Store (package store, sqlite.go)\<close>

text \<open>
  Each SQL table is the list of its rows, in insertion order, with the counter of its
  \<open>AUTOINCREMENT\<close> primary key; the engine draws the candidate id before it looks for a
  conflict, so the counter advances on every statement that succeeds (ids are never
  reused, and no property below depends on the gaps). \<open>updated_at\<close> holds the reading of \<open>CURRENT_TIMESTAMP\<close>,
  which the store carries as \<open>clock\<close>; the environment may change it between statements.
  A statement on a store that has been closed fails, and a statement that violates a
  \<open>FOREIGN KEY\<close> clause of the schema fails (\<open>PRAGMA foreign_keys = ON\<close>); a failed
  statement leaves the store as it was.
\<close>

record 'r table =
  rows :: "'r list"
  seq :: int

record NamespaceRow =
  ns_id :: int
  ns_name :: string

record NodeRow =
  node_id :: int
  node_uid :: string
  node_name :: string
  node_updated_at :: int

text \<open>The tables deployments, statefulsets, daemonsets and pvcs have the same columns.\<close>

record OwnedRow =
  o_id :: int
  o_uid :: string
  o_name :: string
  o_namespace_id :: int
  o_updated_at :: int

record PodRow =
  pod_id :: int
  pod_uid :: string
  pod_name :: string
  pod_namespace_id :: int
  pod_node_id :: int
  pod_deployment_id :: "int option"
  pod_statefulset_id :: "int option"
  pod_daemonset_id :: "int option"
  pod_updated_at :: int

record SQLiteStore =
  closed :: bool
  clock :: int
  namespaces_tbl :: "NamespaceRow table"
  nodes_tbl :: "NodeRow table"
  deployments_tbl :: "OwnedRow table"
  statefulsets_tbl :: "OwnedRow table"
  daemonsets_tbl :: "OwnedRow table"
  pods_tbl :: "PodRow table"
  pvcs_tbl :: "OwnedRow table"

datatype db_error = DbClosed | ForeignKey | NoRows | NoSuchTable

definition Close :: "SQLiteStore \<Rightarrow> SQLiteStore" where
  "Close s = s\<lparr>closed := True\<rparr>"

text \<open>
  \<open>INSERT \<dots> ON CONFLICT(key) DO UPDATE SET \<dots> RETURNING id\<close> on one table: \<open>conflict\<close>
  tells whether a row has the key of the new row, \<open>upd\<close> is the \<open>SET\<close> clause, \<open>mk\<close> builds
  the inserted row from its fresh id. The result is the returned id and the new table.
\<close>

definition upsert_row ::
  "('r \<Rightarrow> bool) \<Rightarrow> ('r \<Rightarrow> int) \<Rightarrow> ('r \<Rightarrow> 'r) \<Rightarrow> (int \<Rightarrow> 'r) \<Rightarrow> 'r table \<Rightarrow> int \<times> 'r table" where
  "upsert_row conflict idof upd mk t =
     (case find conflict (rows t) of
        Some r \<Rightarrow>
          (idof r,
           \<lparr>rows = map (\<lambda>x. if conflict x then upd x else x) (rows t), seq = seq t + 1\<rparr>)
      | None \<Rightarrow>
          (seq t + 1, \<lparr>rows = rows t @ [mk (seq t + 1)], seq = seq t + 1\<rparr>))"

definition has_id :: "('r \<Rightarrow> int) \<Rightarrow> 'r table \<Rightarrow> int \<Rightarrow> bool" where
  "has_id idof t i = (i \<in> set (map idof (rows t)))"

definition opt_has_id :: "('r \<Rightarrow> int) \<Rightarrow> 'r table \<Rightarrow> int option \<Rightarrow> bool" where
  "opt_has_id idof t oi = (case oi of None \<Rightarrow> True | Some i \<Rightarrow> has_id idof t i)"

definition UpsertNamespace :: "string \<Rightarrow> SQLiteStore \<Rightarrow> (db_error + int) \<times> SQLiteStore" where
  "UpsertNamespace name s =
     (if closed s then (Inl DbClosed, s)
      else case upsert_row (\<lambda>r. ns_name r = name) ns_id (\<lambda>r. r)
                  (\<lambda>i. \<lparr>ns_id = i, ns_name = name\<rparr>) (namespaces_tbl s) of
             (i, t) \<Rightarrow> (Inr i, s\<lparr>namespaces_tbl := t\<rparr>))"

definition UpsertNode :: "string \<Rightarrow> string \<Rightarrow> SQLiteStore \<Rightarrow> (db_error + int) \<times> SQLiteStore" where
  "UpsertNode uid name s =
     (if closed s then (Inl DbClosed, s)
      else case upsert_row (\<lambda>r. node_uid r = uid) node_id
                  (\<lambda>r. r\<lparr>node_name := name, node_updated_at := clock s\<rparr>)
                  (\<lambda>i. \<lparr>node_id = i, node_uid = uid, node_name = name,
                         node_updated_at = clock s\<rparr>) (nodes_tbl s) of
             (i, t) \<Rightarrow> (Inr i, s\<lparr>nodes_tbl := t\<rparr>))"

text \<open>The statement shared by the four tables with columns (uid, name, namespace_id).\<close>

definition upsert_owned :: "string \<Rightarrow> string \<Rightarrow> int \<Rightarrow> int \<Rightarrow> OwnedRow table \<Rightarrow> int \<times> OwnedRow table" where
  "upsert_owned uid name nsID now t =
     upsert_row (\<lambda>r. o_uid r = uid) o_id
       (\<lambda>r. r\<lparr>o_name := name, o_namespace_id := nsID, o_updated_at := now\<rparr>)
       (\<lambda>i. \<lparr>o_id = i, o_uid = uid, o_name = name, o_namespace_id = nsID,
              o_updated_at = now\<rparr>) t"

definition UpsertDeployment :: "string \<Rightarrow> string \<Rightarrow> int \<Rightarrow> SQLiteStore \<Rightarrow> (db_error + int) \<times> SQLiteStore" where
  "UpsertDeployment uid name nsID s =
     (if closed s then (Inl DbClosed, s)
      else if \<not> has_id ns_id (namespaces_tbl s) nsID then (Inl ForeignKey, s)
      else case upsert_owned uid name nsID (clock s) (deployments_tbl s) of
             (i, t) \<Rightarrow> (Inr i, s\<lparr>deployments_tbl := t\<rparr>))"

definition UpsertStatefulSet :: "string \<Rightarrow> string \<Rightarrow> int \<Rightarrow> SQLiteStore \<Rightarrow> (db_error + int) \<times> SQLiteStore" where
  "UpsertStatefulSet uid name nsID s =
     (if closed s then (Inl DbClosed, s)
      else if \<not> has_id ns_id (namespaces_tbl s) nsID then (Inl ForeignKey, s)
      else case upsert_owned uid name nsID (clock s) (statefulsets_tbl s) of
             (i, t) \<Rightarrow> (Inr i, s\<lparr>statefulsets_tbl := t\<rparr>))"

definition UpsertDaemonSet :: "string \<Rightarrow> string \<Rightarrow> int \<Rightarrow> SQLiteStore \<Rightarrow> (db_error + int) \<times> SQLiteStore" where
  "UpsertDaemonSet uid name nsID s =
     (if closed s then (Inl DbClosed, s)
      else if \<not> has_id ns_id (namespaces_tbl s) nsID then (Inl ForeignKey, s)
      else case upsert_owned uid name nsID (clock s) (daemonsets_tbl s) of
             (i, t) \<Rightarrow> (Inr i, s\<lparr>daemonsets_tbl := t\<rparr>))"

definition UpsertPod ::
  "string \<Rightarrow> string \<Rightarrow> int \<Rightarrow> int \<Rightarrow> int option \<Rightarrow> int option \<Rightarrow> int option \<Rightarrow> SQLiteStore
   \<Rightarrow> (db_error + int) \<times> SQLiteStore" where
  "UpsertPod uid name nsID nodeID depID stsID dsID s =
     (if closed s then (Inl DbClosed, s)
      else if \<not> (has_id ns_id (namespaces_tbl s) nsID
                \<and> has_id node_id (nodes_tbl s) nodeID
                \<and> opt_has_id o_id (deployments_tbl s) depID
                \<and> opt_has_id o_id (statefulsets_tbl s) stsID
                \<and> opt_has_id o_id (daemonsets_tbl s) dsID) then (Inl ForeignKey, s)
      else case upsert_row (\<lambda>r. pod_uid r = uid) pod_id
                  (\<lambda>r. r\<lparr>pod_name := name, pod_namespace_id := nsID, pod_node_id := nodeID,
                         pod_deployment_id := depID, pod_statefulset_id := stsID,
                         pod_daemonset_id := dsID, pod_updated_at := clock s\<rparr>)
                  (\<lambda>i. \<lparr>pod_id = i, pod_uid = uid, pod_name = name, pod_namespace_id = nsID,
                         pod_node_id = nodeID, pod_deployment_id = depID,
                         pod_statefulset_id = stsID, pod_daemonset_id = dsID,
                         pod_updated_at = clock s\<rparr>) (pods_tbl s) of
             (i, t) \<Rightarrow> (Inr i, s\<lparr>pods_tbl := t\<rparr>))"

definition UpsertPVC :: "string \<Rightarrow> string \<Rightarrow> int \<Rightarrow> SQLiteStore \<Rightarrow> (db_error + int) \<times> SQLiteStore" where
  "UpsertPVC uid name nsID s =
     (if closed s then (Inl DbClosed, s)
      else if \<not> has_id ns_id (namespaces_tbl s) nsID then (Inl ForeignKey, s)
      else case upsert_owned uid name nsID (clock s) (pvcs_tbl s) of
             (i, t) \<Rightarrow> (Inr i, s\<lparr>pvcs_tbl := t\<rparr>))"

text \<open>
  \<open>SELECT id FROM <table> WHERE uid = ?\<close>, scanned into one id: no row is \<open>sql.ErrNoRows\<close>.
  The table name is spliced into the statement, so a name that is no table with a
  \<open>uid\<close> column is an error of the statement.
\<close>

definition select_id :: "('r \<Rightarrow> string) \<Rightarrow> ('r \<Rightarrow> int) \<Rightarrow> string \<Rightarrow> 'r table \<Rightarrow> db_error + int" where
  "select_id uidof idof uid t =
     (case find (\<lambda>r. uidof r = uid) (rows t) of None \<Rightarrow> Inl NoRows | Some r \<Rightarrow> Inr (idof r))"

definition GetResourceID :: "string \<Rightarrow> string \<Rightarrow> SQLiteStore \<Rightarrow> db_error + int" where
  "GetResourceID tbl uid s =
     (if closed s then Inl DbClosed
      else if tbl = ''nodes'' then select_id node_uid node_id uid (nodes_tbl s)
      else if tbl = ''deployments'' then select_id o_uid o_id uid (deployments_tbl s)
      else if tbl = ''statefulsets'' then select_id o_uid o_id uid (statefulsets_tbl s)
      else if tbl = ''daemonsets'' then select_id o_uid o_id uid (daemonsets_tbl s)
      else if tbl = ''pods'' then select_id pod_uid pod_id uid (pods_tbl s)
      else if tbl = ''pvcs'' then select_id o_uid o_id uid (pvcs_tbl s)
      else Inl NoSuchTable)"

text \<open>The same call once more, on the store the first call left, at clock reading \<open>t\<close>.\<close>

definition again ::
  "(SQLiteStore \<Rightarrow> (db_error + int) \<times> SQLiteStore) \<Rightarrow> int \<Rightarrow> SQLiteStore
   \<Rightarrow> (db_error + int) \<times> SQLiteStore" where
  "again f t s = f ((snd (f s))\<lparr>clock := t\<rparr>)"

text \<open>The schema that \<open>NewSQLiteStore\<close> creates on a new file: every table empty.\<close>

definition empty_table :: "'r table" where
  "empty_table = \<lparr>rows = [], seq = 0\<rparr>"

definition NewSQLiteStore :: "int \<Rightarrow> SQLiteStore" where
  "NewSQLiteStore now =
     \<lparr>closed = False, clock = now, namespaces_tbl = empty_table, nodes_tbl = empty_table,
      deployments_tbl = empty_table, statefulsets_tbl = empty_table,
      daemonsets_tbl = empty_table, pods_tbl = empty_table, pvcs_tbl = empty_table\<rparr>"

section \<open>The Resource Syncer (package syncer)\<close>

text \<open>
  The orchestrator objects, as far as the syncer reads them: the metadata every object
  embeds, and \<open>Spec.NodeName\<close> of a Pod.
\<close>

record OwnerReference =
  owner_Kind :: string
  owner_UID :: string

record ObjectMeta =
  Name :: string
  Namespace :: string
  UID :: string
  OwnerReferences :: "OwnerReference list"

record Pod = ObjectMeta +
  NodeName :: string

datatype Object =
    Node ObjectMeta
  | APod Pod
  | PersistentVolumeClaim ObjectMeta
  | Deployment ObjectMeta
  | StatefulSet ObjectMeta
  | DaemonSet ObjectMeta
  | ReplicaSet ObjectMeta
  | OtherObject

text \<open>
  The syncer owns the store handle and five caches. Handlers are modelled one event at
  a time: the reader/writer lock only protects the maps, and is released between the
  cache lookup and the store statement, so a handler is the sequence of its steps.
\<close>

record ResourceSyncer =
  sqlite :: SQLiteStore
  pods :: "string \<rightharpoonup> int"
  pvcs :: "string \<rightharpoonup> int"
  namespaces :: "string \<rightharpoonup> int"
  nodes :: "string \<rightharpoonup> int"
  replicaSets :: "string \<rightharpoonup> int"

definition NewResourceSyncer :: "SQLiteStore \<Rightarrow> ResourceSyncer" where
  "NewResourceSyncer db =
     \<lparr>sqlite = db, pods = Map.empty, pvcs = Map.empty, namespaces = Map.empty,
      nodes = Map.empty, replicaSets = Map.empty\<rparr>"

definition getNamespaceID :: "string \<Rightarrow> ResourceSyncer \<Rightarrow> int \<times> ResourceSyncer" where
  "getNamespaceID name s =
     (case namespaces s name of
        Some i \<Rightarrow> (i, s)
      | None \<Rightarrow>
          (case UpsertNamespace name (sqlite s) of
             (Inl e, db) \<Rightarrow> (0, s\<lparr>sqlite := db\<rparr>)
           | (Inr i, db) \<Rightarrow> (i, s\<lparr>sqlite := db, namespaces := (namespaces s)(name \<mapsto> i)\<rparr>)))"

definition getNodeID :: "string \<Rightarrow> string \<Rightarrow> ResourceSyncer \<Rightarrow> int \<times> ResourceSyncer" where
  "getNodeID name uid s =
     (case nodes s name of
        Some i \<Rightarrow> (i, s)
      | None \<Rightarrow>
          (case UpsertNode (if uid = [] then ''stub-'' @ name else uid) name (sqlite s) of
             (Inl e, db) \<Rightarrow> (0, s\<lparr>sqlite := db\<rparr>)
           | (Inr i, db) \<Rightarrow> (i, s\<lparr>sqlite := db, nodes := (nodes s)(name \<mapsto> i)\<rparr>)))"

definition syncNode :: "ObjectMeta \<Rightarrow> ResourceSyncer \<Rightarrow> ResourceSyncer" where
  "syncNode n s = snd (getNodeID (Name n) (UID n) s)"

definition syncDeployment :: "ObjectMeta \<Rightarrow> ResourceSyncer \<Rightarrow> ResourceSyncer" where
  "syncDeployment d s =
     (case getNamespaceID (Namespace d) s of
        (nsID, s1) \<Rightarrow> s1\<lparr>sqlite := snd (UpsertDeployment (UID d) (Name d) nsID (sqlite s1))\<rparr>)"

definition syncStatefulSet :: "ObjectMeta \<Rightarrow> ResourceSyncer \<Rightarrow> ResourceSyncer" where
  "syncStatefulSet sts s =
     (case getNamespaceID (Namespace sts) s of
        (nsID, s1) \<Rightarrow> s1\<lparr>sqlite := snd (UpsertStatefulSet (UID sts) (Name sts) nsID (sqlite s1))\<rparr>)"

definition syncDaemonSet :: "ObjectMeta \<Rightarrow> ResourceSyncer \<Rightarrow> ResourceSyncer" where
  "syncDaemonSet ds s =
     (case getNamespaceID (Namespace ds) s of
        (nsID, s1) \<Rightarrow> s1\<lparr>sqlite := snd (UpsertDaemonSet (UID ds) (Name ds) nsID (sqlite s1))\<rparr>)"

text \<open>The loop of \<open>syncReplicaSet\<close> over the owner references, with its early return.\<close>

fun syncReplicaSet_owners :: "string \<Rightarrow> OwnerReference list \<Rightarrow> ResourceSyncer \<Rightarrow> ResourceSyncer" where
  "syncReplicaSet_owners rsUID [] s = s"
| "syncReplicaSet_owners rsUID (owner # owners) s =
     (if owner_Kind owner = ''Deployment'' then
        (case GetResourceID ''deployments'' (owner_UID owner) (sqlite s) of
           Inr depID \<Rightarrow> s\<lparr>replicaSets := (replicaSets s)(rsUID \<mapsto> depID)\<rparr>
         | Inl e \<Rightarrow> syncReplicaSet_owners rsUID owners s)
      else syncReplicaSet_owners rsUID owners s)"

definition syncReplicaSet :: "ObjectMeta \<Rightarrow> ResourceSyncer \<Rightarrow> ResourceSyncer" where
  "syncReplicaSet rs s = syncReplicaSet_owners (UID rs) (OwnerReferences rs) s"

text \<open>
  The loop of \<open>syncPod\<close> over the owner references: it carries \<open>depID\<close>, \<open>stsID\<close> and
  \<open>dsID\<close>, each \<open>nil\<close> at the start.
\<close>

fun syncPod_owners ::
  "OwnerReference list \<Rightarrow> ResourceSyncer \<Rightarrow> int option \<times> int option \<times> int option
   \<Rightarrow> int option \<times> int option \<times> int option" where
  "syncPod_owners [] s acc = acc"
| "syncPod_owners (owner # owners) s (depID, stsID, dsID) =
     syncPod_owners owners s
       (if owner_Kind owner = ''StatefulSet'' then
          (case GetResourceID ''statefulsets'' (owner_UID owner) (sqlite s) of
             Inr i \<Rightarrow> (depID, Some i, dsID) | Inl e \<Rightarrow> (depID, stsID, dsID))
        else if owner_Kind owner = ''DaemonSet'' then
          (case GetResourceID ''daemonsets'' (owner_UID owner) (sqlite s) of
             Inr i \<Rightarrow> (depID, stsID, Some i) | Inl e \<Rightarrow> (depID, stsID, dsID))
        else if owner_Kind owner = ''ReplicaSet'' then
          (case replicaSets s (owner_UID owner) of
             Some i \<Rightarrow> (Some i, stsID, dsID) | None \<Rightarrow> (depID, stsID, dsID))
        else (depID, stsID, dsID))"

definition syncPod :: "Pod \<Rightarrow> ResourceSyncer \<Rightarrow> ResourceSyncer" where
  "syncPod pod s =
     (case getNamespaceID (Namespace pod) s of
        (nsID, s1) \<Rightarrow>
          if nsID = 0 then s1
          else if NodeName pod \<noteq> [] then
            (case getNodeID (NodeName pod) [] s1 of
               (nodeID, s2) \<Rightarrow>
                 if nodeID = 0 then s2
                 else
                   (case syncPod_owners (OwnerReferences pod) s2 (None, None, None) of
                      (depID, stsID, dsID) \<Rightarrow>
                        (case UpsertPod (UID pod) (Name pod) nsID nodeID depID stsID dsID
                                (sqlite s2) of
                           (Inl e, db) \<Rightarrow> s2\<lparr>sqlite := db\<rparr>
                         | (Inr i, db) \<Rightarrow>
                             s2\<lparr>sqlite := db, pods := (pods s2)(UID pod \<mapsto> i)\<rparr>)))
          else s1)"

definition syncPVC :: "ObjectMeta \<Rightarrow> ResourceSyncer \<Rightarrow> ResourceSyncer" where
  "syncPVC pvc s =
     (case getNamespaceID (Namespace pvc) s of
        (nsID, s1) \<Rightarrow>
          (case UpsertPVC (UID pvc) (Name pvc) nsID (sqlite s1) of
             (Inl e, db) \<Rightarrow> s1\<lparr>sqlite := db\<rparr>
           | (Inr i, db) \<Rightarrow> s1\<lparr>sqlite := db, pvcs := (pvcs s1)(UID pvc \<mapsto> i)\<rparr>))"

fun syncObject :: "Object \<Rightarrow> ResourceSyncer \<Rightarrow> ResourceSyncer" where
  "syncObject (Node n) s = syncNode n s"
| "syncObject (APod p) s = syncPod p s"
| "syncObject (PersistentVolumeClaim c) s = syncPVC c s"
| "syncObject (Deployment d) s = syncDeployment d s"
| "syncObject (StatefulSet d) s = syncStatefulSet d s"
| "syncObject (DaemonSet d) s = syncDaemonSet d s"
| "syncObject (ReplicaSet r) s = syncReplicaSet r s"
| "syncObject OtherObject s = s"

text \<open>
  \<open>ResourceSyncer.GetResourceID(uid, rType)\<close>: the pair \<open>(id, ok)\<close> of a map lookup, held
  as an option.
\<close>

definition Syncer_GetResourceID :: "string \<Rightarrow> string \<Rightarrow> ResourceSyncer \<Rightarrow> int option" where
  "Syncer_GetResourceID uid rType s = (if rType = ''pvc'' then pvcs s uid else pods s uid)"

text \<open>
  The life of one syncer: the informers deliver watch events, handled one at a time,
  and in between the environment lets time pass, so that the store's clock reads \<open>t\<close>.
  \<open>rows_named\<close> counts the rows of the nodes table with a given name.
\<close>

definition later :: "int \<Rightarrow> ResourceSyncer \<Rightarrow> ResourceSyncer" where
  "later t s = s\<lparr>sqlite := (sqlite s)\<lparr>clock := t\<rparr>\<rparr>"

datatype step = Watch Object | Clock int

fun do_step :: "step \<Rightarrow> ResourceSyncer \<Rightarrow> ResourceSyncer" where
  "do_step (Watch ob) s = syncObject ob s"
| "do_step (Clock t) s = later t s"

definition run :: "step list \<Rightarrow> ResourceSyncer \<Rightarrow> ResourceSyncer" where
  "run steps s = foldl (\<lambda>s' st. do_step st s') s steps"

definition rows_named :: "string \<Rightarrow> ResourceSyncer \<Rightarrow> nat" where
  "rows_named nm s = length (filter (\<lambda>r. node_name r = nm) (rows (nodes_tbl (sqlite s))))"

section \<open>The Ingestion Endpoint (package ingest)\<close>

record RawMetric =
  RawType :: string
  PodID :: string
  PodUID :: string
  Volume :: string
  ContainerID :: string
  Key :: string
  RawValue :: real
  Timestamp :: int

record IngestRequest =
  ReqNodeName :: string
  Metrics :: "RawMetric list"

text \<open>
  Strings are byte lists, as in Go. \<open>HasPrefix\<close>, \<open>Contains\<close> and \<open>ReplaceAll\<close> (for a
  one-byte pattern) are the functions of package \<open>strings\<close>.
\<close>

definition HasPrefix :: "string \<Rightarrow> string \<Rightarrow> bool" where
  "HasPrefix s p = (take (length p) s = p)"

fun Contains :: "string \<Rightarrow> string \<Rightarrow> bool" where
  "Contains [] sub = (sub = [])"
| "Contains (c # cs) sub = (HasPrefix (c # cs) sub \<or> Contains cs sub)"

definition ReplaceAll :: "string \<Rightarrow> char \<Rightarrow> char \<Rightarrow> string" where
  "ReplaceAll s old new = map (\<lambda>c. if c = old then new else c) s"

text \<open>The character classes \<open>[0-9a-f]\<close> and \<open>[0-9a-fA-F_]\<close> of the two expressions.\<close>

definition lower_hex :: "char \<Rightarrow> bool" where
  "lower_hex c = (c \<in> set ''0123456789abcdef'')"

definition hex_or_underscore :: "char \<Rightarrow> bool" where
  "hex_or_underscore c = (c \<in> set ''0123456789abcdefABCDEF_'')"

text \<open>
  Groups of \<open>[0-9a-f]\<close> of the given lengths, separated by single hyphens, up to the
  end of the text.
\<close>

fun hex_groups :: "nat list \<Rightarrow> string \<Rightarrow> bool" where
  "hex_groups [] s = False"
| "hex_groups [n] s = (length s = n \<and> list_all lower_hex s)"
| "hex_groups (n # ns) s =
     (length (take n s) = n \<and> list_all lower_hex (take n s)
      \<and> take 1 (drop n s) = ''-'' \<and> hex_groups ns (drop (Suc n) s))"

text \<open>
  \<open>pvcVolumeRegex.FindStringSubmatch\<close>: the whole match and the capture group, or no
  element at all (\<open>nil\<close>) when the text does not match. The expression is anchored at
  both ends, so the match is the text and the group is what follows \<open>pvc-\<close>.
\<close>

definition pvcVolumeRegex :: "string \<Rightarrow> string list" where
  "pvcVolumeRegex v =
     (if HasPrefix v ''pvc-'' \<and> hex_groups [8, 4, 4, 4, 12] (drop 4 v)
      then [v, drop 4 v] else [])"

text \<open>
  \<open>podSliceRegex.FindStringSubmatch\<close>: the expression is not anchored, so the leftmost
  match is taken; \<open>+\<close> and \<open>?\<close> are greedy, so the group is the longest run of class
  characters after \<open>pod\<close>, and \<open>.slice\<close> belongs to the match when it follows the run.
\<close>

fun podSliceRegex :: "string \<Rightarrow> string list" where
  "podSliceRegex [] = []"
| "podSliceRegex (c # cs) =
     (let run = takeWhile hex_or_underscore (drop 3 (c # cs));
          rest = dropWhile hex_or_underscore (drop 3 (c # cs))
      in if HasPrefix (c # cs) ''pod'' \<and> run \<noteq> []
         then [''pod'' @ run @ (if HasPrefix rest ''.slice'' then ''.slice'' else []), run]
         else podSliceRegex cs)"

text \<open>
  The condition of the \<open>if\<close> in the loop body of \<open>HandleIngest\<close>. In Go \<open>&&\<close> binds
  tighter than \<open>||\<close>, as \<open>\<and>\<close> binds tighter than \<open>\<or>\<close> here.
\<close>

definition volume_condition :: "RawMetric \<Rightarrow> bool" where
  "volume_condition raw =
     (Key raw = ''pvc_usage'' \<or> Contains (Key raw) ''_mb'' \<and> Volume raw \<noteq> [])"

text \<open>
  Step 1 of the loop body: the pair \<open>(uid, rType)\<close> after the \<open>if\<close>/\<open>else\<close>; the two
  variables start as \<open>""\<close> and \<open>"pod"\<close>.
\<close>

definition resolveUID :: "RawMetric \<Rightarrow> string \<times> string" where
  "resolveUID raw =
     (if volume_condition raw then
        (let matches = pvcVolumeRegex (Volume raw)
         in if length matches > 1 then (matches ! 1, ''pvc'')
            else if PodUID raw \<noteq> [] then (PodUID raw, ''pod'')
            else ([], ''pod''))
      else if PodID raw \<noteq> [] then
        (let matches = podSliceRegex (PodID raw)
         in if length matches > 1 then (ReplaceAll (matches ! 1) CHR ''_'' CHR ''-'', ''pod'')
            else ([], ''pod''))
      else ([], ''pod''))"

text \<open>Step 2 of the loop body: \<open>resourceID\<close>, zero unless the resolver knows the uid.\<close>

definition resolveID :: "ResourceSyncer \<Rightarrow> string \<times> string \<Rightarrow> int" where
  "resolveID res ur =
     (case ur of (uid, rType) \<Rightarrow>
        if uid \<noteq> [] then
          (case Syncer_GetResourceID uid rType res of Some i \<Rightarrow> i | None \<Rightarrow> 0)
        else 0)"

definition ingestMetric :: "ResourceSyncer \<Rightarrow> RawMetric \<Rightarrow> Metric" where
  "ingestMetric res raw =
     \<lparr>Time = Timestamp raw * 1000000000, ResourceID = resolveID res (resolveUID raw),
      Type = Key raw, Value = RawValue raw\<rparr>"

text \<open>
  \<open>HandleIngest\<close> on the request method and the decoded body (\<open>None\<close> when the JSON
  decoder fails): the status code written and the buffer afterwards.
\<close>

definition HandleIngest ::
  "string \<Rightarrow> IngestRequest option \<Rightarrow> ResourceSyncer \<Rightarrow> RingBuffer \<Rightarrow> nat \<times> RingBuffer" where
  "HandleIngest method body res rb =
     (if method \<noteq> ''POST'' then (405, rb)
      else case body of
             None \<Rightarrow> (400, rb)
           | Some req \<Rightarrow> (202, foldl (\<lambda>b raw. Add b (ingestMetric res raw)) rb (Metrics req)))"

text \<open>
  What the two expressions describe, stated on the text itself and not by the matcher:
  a text matches \<open>^pvc-(\<dots>)$\<close> when it is \<open>pvc-\<close> followed by five groups of 8, 4, 4, 4
  and 12 characters of \<open>[0-9a-f]\<close> joined by hyphens; \<open>pod([0-9a-fA-F_]+)\<close> matches at the
  start of a text that begins with \<open>pod\<close> and a character of the class.
\<close>

definition uuid_text :: "string \<Rightarrow> string \<Rightarrow> string \<Rightarrow> string \<Rightarrow> string \<Rightarrow> string" where
  "uuid_text a b c d e = a @ ''-'' @ b @ ''-'' @ c @ ''-'' @ d @ ''-'' @ e"

definition uuid_groups :: "string \<Rightarrow> string \<Rightarrow> string \<Rightarrow> string \<Rightarrow> string \<Rightarrow> bool" where
  "uuid_groups a b c d e =
     (length a = 8 \<and> length b = 4 \<and> length c = 4 \<and> length d = 4 \<and> length e = 12
      \<and> list_all lower_hex (a @ b @ c @ d @ e))"

definition pod_match_at :: "string \<Rightarrow> bool" where
  "pod_match_at s =
     (HasPrefix s ''pod'' \<and> (case drop 3 s of [] \<Rightarrow> False | c # _ \<Rightarrow> hex_or_underscore c))"

section \<open>The live view of the Query API (package api, live.go)\<close>

record ContainerInfo =
  ContainerInfo_ID :: string
  CPUms :: real
  MemMB :: real
  MemLimitMB :: real

record PVCInfo =
  PVCInfo_ID :: int
  PVCInfo_Name :: string
  VolumeName :: string
  TotalMB :: real
  UsedMB :: real
  FreeMB :: real

record LivePod =
  LivePod_ID :: int
  LivePod_Name :: string
  LivePod_UID :: string
  LivePod_Namespace :: string
  LivePod_Node :: string
  LivePod_Deployment :: "string option"
  Containers :: "ContainerInfo list"
  PVCs :: "PVCInfo list"

record LiveMetricsResponse =
  RespTimestamp :: int
  Pods :: "LivePod list"

datatype http_response = Json LiveMetricsResponse | HttpError nat

text \<open>
  The \<open>SELECT\<close> of the handler. Each filter is the result of \<open>getQueryInt\<close>: \<open>None\<close> when
  the parameter is absent or no integer. \<open>JOIN\<close> keeps a pod once for every matching
  namespace and node row, \<open>LEFT JOIN\<close> adds the deployment name or \<open>NULL\<close>, a comparison
  with a \<open>NULL\<close> deployment\_id is not true, and the rows come ordered by the pod name
  (bytewise, the engine's default collation). A row is the scanned \<open>LivePod\<close>; \<open>Scan\<close>
  cannot fail on these columns, of which only the deployment name may be \<open>NULL\<close>.
\<close>

definition where_clause :: "int option \<Rightarrow> int option \<Rightarrow> int option \<Rightarrow> PodRow \<Rightarrow> bool" where
  "where_clause depF nodeF podF p =
     ((case depF of None \<Rightarrow> True | Some d \<Rightarrow> pod_deployment_id p = Some d)
      \<and> (case nodeF of None \<Rightarrow> True | Some n \<Rightarrow> pod_node_id p = n)
      \<and> (case podF of None \<Rightarrow> True | Some i \<Rightarrow> pod_id p = i))"

definition left_join_deployment :: "SQLiteStore \<Rightarrow> PodRow \<Rightarrow> string option list" where
  "left_join_deployment s p =
     (case filter (\<lambda>d. pod_deployment_id p = Some (o_id d)) (rows (deployments_tbl s)) of
        [] \<Rightarrow> [None]
      | ds \<Rightarrow> map (\<lambda>d. Some (o_name d)) ds)"

definition live_query :: "int option \<Rightarrow> int option \<Rightarrow> int option \<Rightarrow> SQLiteStore \<Rightarrow> LivePod list" where
  "live_query depF nodeF podF s =
     sort_key LivePod_Name
       [\<lparr>LivePod_ID = pod_id p, LivePod_Name = pod_name p, LivePod_UID = pod_uid p,
          LivePod_Namespace = ns_name ns, LivePod_Node = node_name n,
          LivePod_Deployment = d, Containers = [], PVCs = []\<rparr>.
        p \<leftarrow> rows (pods_tbl s),
        ns \<leftarrow> rows (namespaces_tbl s), pod_namespace_id p = ns_id ns,
        n \<leftarrow> rows (nodes_tbl s), pod_node_id p = node_id n,
        d \<leftarrow> left_join_deployment s p,
        where_clause depF nodeF podF p]"

text \<open>
  The ids with a sample after the cutoff, in buffer order (the key set of
  \<open>activePodIDs\<close>).
\<close>

definition activePodIDs :: "int \<Rightarrow> Metric list \<Rightarrow> int list" where
  "activePodIDs cutoffTime allMetrics =
     map ResourceID (filter (\<lambda>m. Time m > cutoffTime \<and> ResourceID m > 0) allMetrics)"

text \<open>
  The inner loop over the samples for one pod. \<open>containerMetrics\<close> only ever has the key
  \<open>"default"\<close>, so it is the option of that entry; \<open>pvcMetrics\<close> is the list of its
  entries.
\<close>

definition default_container :: "ContainerInfo option \<Rightarrow> ContainerInfo" where
  "default_container cm =
     (case cm of
        None \<Rightarrow> \<lparr>ContainerInfo_ID = ''default'', CPUms = 0, MemMB = 0, MemLimitMB = 0\<rparr>
      | Some c \<Rightarrow> c)"

definition aggregate_step ::
  "int \<Rightarrow> int \<Rightarrow> ContainerInfo option \<times> (int \<times> PVCInfo) list \<Rightarrow> Metric
   \<Rightarrow> ContainerInfo option \<times> (int \<times> PVCInfo) list" where
  "aggregate_step pid cutoffTime acc m =
     (case acc of (containerMetrics, pvcMetrics) \<Rightarrow>
        if ResourceID m \<noteq> pid \<or> Time m < cutoffTime then acc
        else if Type m = ''cpu_ms'' then
          (Some ((default_container containerMetrics)\<lparr>CPUms := Value m\<rparr>), pvcMetrics)
        else if Type m = ''mem_mb'' then
          (Some ((default_container containerMetrics)\<lparr>MemMB := Value m\<rparr>), pvcMetrics)
        else if Type m = ''mem_limit_mb'' then
          (Some ((default_container containerMetrics)\<lparr>MemLimitMB := Value m\<rparr>), pvcMetrics)
        else if Type m = ''total_mb'' \<or> Type m = ''used_mb'' \<or> Type m = ''free_mb'' then acc
        else acc)"

definition fill_pod :: "int \<Rightarrow> Metric list \<Rightarrow> LivePod \<Rightarrow> LivePod" where
  "fill_pod cutoffTime allMetrics p =
     (case foldl (aggregate_step (LivePod_ID p) cutoffTime) (None, []) allMetrics of
        (containerMetrics, pvcMetrics) \<Rightarrow>
          p\<lparr>Containers := Containers p @ (case containerMetrics of None \<Rightarrow> [] | Some c \<Rightarrow> [c]),
            PVCs := PVCs p @ map snd pvcMetrics\<rparr>)"

text \<open>
  \<open>handleLiveMetrics\<close>: \<open>now0\<close> is the clock read for the cutoff and \<open>now1\<close> the clock
  read for the timestamp of the response, both in nanoseconds.
\<close>

definition handleLiveMetrics ::
  "string \<Rightarrow> int option \<Rightarrow> int option \<Rightarrow> int option \<Rightarrow> int \<Rightarrow> int
   \<Rightarrow> SQLiteStore \<Rightarrow> RingBuffer \<Rightarrow> http_response" where
  "handleLiveMetrics method depF nodeF podF now0 now1 s ring =
     (if method \<noteq> ''GET'' then HttpError 405
      else
        let cutoffTime = now0 - 5 * 1000000000;
            allMetrics = ReadAll ring;
            active = activePodIDs cutoffTime allMetrics
        in if length active = 0
           then Json \<lparr>RespTimestamp = now1 div 1000000000, Pods = []\<rparr>
           else if closed s then HttpError 500
           else Json \<lparr>RespTimestamp = now1 div 1000000000,
                      Pods = map (fill_pod cutoffTime allMetrics)
                               (filter (\<lambda>p. LivePod_ID p \<in> set active)
                                  (live_query depF nodeF podF s))\<rparr>)"

section \<open>Example states\<close>

text \<open>A store with one namespace (id 1) and one node (id 1), at clock reading 0.\<close>

definition example_store :: SQLiteStore where
  "example_store =
     snd (UpsertNode ''n-1'' ''host-1'' (snd (UpsertNamespace ''ns-a'' (NewSQLiteStore 0))))"

text \<open>
  A syncer that has just started on a new store; a Pod before and after it is
  scheduled on the node \<open>host-1\<close>; the Node object of \<open>host-1\<close> with its orchestrator uid.
\<close>

definition example_syncer :: ResourceSyncer where
  "example_syncer = NewResourceSyncer (NewSQLiteStore 0)"

definition unscheduled_pod :: Pod where
  "unscheduled_pod =
     \<lparr>Name = ''web-xyz'', Namespace = ''ns-a'', UID = ''p-1'', OwnerReferences = [],
      NodeName = []\<rparr>"

definition scheduled_pod :: Pod where
  "scheduled_pod = unscheduled_pod\<lparr>NodeName := ''host-1''\<rparr>"

definition real_node :: ObjectMeta where
  "real_node = \<lparr>Name = ''host-1'', Namespace = [], UID = ''n-1'', OwnerReferences = []\<rparr>"

text \<open>A syncer that knows the namespace \<open>ns-a\<close> and whose store has been closed.\<close>

definition closed_syncer :: ResourceSyncer where
  "closed_syncer = (NewResourceSyncer (Close example_store))\<lparr>namespaces := [''ns-a'' \<mapsto> 1]\<rparr>"

text \<open>
  The store after the scheduled pod was synced (pod 1 in namespace 1 on node 1), and a
  window with a container sample and a volume sample of that pod, both of second 1000.
\<close>

definition live_store :: SQLiteStore where
  "live_store = sqlite (syncPod scheduled_pod example_syncer)"

definition live_ring :: RingBuffer where
  "live_ring =
     \<lparr>metrics = [\<lparr>Time = 1000000000000, ResourceID = 1, Type = ''cpu_ms'', Value = 123\<rparr>,
                 \<lparr>Time = 1000000000000, ResourceID = 1, Type = ''used_mb'', Value = 42\<rparr>],
      maxSize = 10000\<rparr>"

text \<open>
  Raw metrics as the collector sends them; a syncer that has seen a pod whose uid can
  be written in a cgroup slice name; a batch with one metric of that pod, one of an
  unknown pod, one of an unknown claim and one without any owner; a window that is
  full.
\<close>

definition raw_metric :: "string \<Rightarrow> real \<Rightarrow> string \<Rightarrow> string \<Rightarrow> string \<Rightarrow> int \<Rightarrow> RawMetric" where
  "raw_metric k v pid puid vol ts =
     \<lparr>RawType = [], PodID = pid, PodUID = puid, Volume = vol, ContainerID = [],
      Key = k, RawValue = v, Timestamp = ts\<rparr>"

definition hex_pod :: Pod where
  "hex_pod = scheduled_pod\<lparr>UID := ''4f2b-3a19-4c-aa22-0f11e2d33c44''\<rparr>"

definition ingest_syncer :: ResourceSyncer where
  "ingest_syncer = syncPod hex_pod example_syncer"

definition example_batch :: IngestRequest where
  "example_batch =
     \<lparr>ReqNodeName = ''host-1'',
      Metrics =
        [raw_metric ''cpu_ms'' 123 ''kubepods-burstable-pod4f2b_3a19_4c_aa22_0f11e2d33c44.slice''
           [] [] 1000,
         raw_metric ''cpu_ms'' 5 ''kubepods-podffff_0000.slice'' [] [] 1000,
         raw_metric ''used_mb'' 42 [] [] ''pvc-11111111-2222-3333-4444-555555555555'' 1000,
         raw_metric ''node_cpu'' 7 [] [] [] 1000]\<rparr>"

definition full_ring :: RingBuffer where
  "full_ring =
     \<lparr>metrics = [\<lparr>Time = 999000000000, ResourceID = 1, Type = ''cpu_ms'', Value = 1\<rparr>],
      maxSize = 1\<rparr>"


definition claim_object :: ObjectMeta where
  "claim_object =
     \<lparr>Name = ''data'', Namespace = ''ns-a'', UID = ''11111111-2222-3333-4444-555555555555'',
      OwnerReferences = []\<rparr>"

definition claim_syncer :: ResourceSyncer where
  "claim_syncer = syncPVC claim_object (syncPod scheduled_pod example_syncer)"

definition claim_batch :: IngestRequest where
  "claim_batch =
     \<lparr>ReqNodeName = ''host-1'',
      Metrics = [raw_metric ''used_mb'' 42 [] []
                   ''pvc-11111111-2222-3333-4444-555555555555'' 1000]\<rparr>"

definition claim_ring :: RingBuffer where
  "claim_ring =
     snd (HandleIngest ''POST'' (Some claim_batch) claim_syncer
            \<lparr>metrics = [], maxSize = 10000\<rparr>)"

section \<open>Properties of the Ring Window\<close>

lemma Add_maxSize: "maxSize (Add rb m) = maxSize rb"
  by (simp add: Add_def)

lemma Add_metrics:
  "length (metrics rb) \<le> maxSize rb \<Longrightarrow>
   metrics (Add rb m) = take (maxSize rb) (metrics rb @ [m])"
  by (simp add: Add_def)

lemma foldl_Add_maxSize: "maxSize (foldl Add rb ms) = maxSize rb"
  by (induction ms arbitrary: rb) (simp_all add: Add_maxSize)

lemma foldl_Add_metrics:
  "length (metrics rb) \<le> maxSize rb \<Longrightarrow>
   metrics (foldl Add rb ms) = take (maxSize rb) (metrics rb @ ms)"
proof (induction ms arbitrary: rb)
  case Nil
  then show ?case by simp
next
  case (Cons m ms)
  have step: "metrics (Add rb m) = take (maxSize rb) (metrics rb @ [m])"
    using Cons.prems by (rule Add_metrics)
  have bound: "length (metrics (Add rb m)) \<le> maxSize (Add rb m)"
    by (simp add: step Add_maxSize)
  have "metrics (foldl Add (Add rb m) ms)
        = take (maxSize rb) (take (maxSize rb) (metrics rb @ [m]) @ ms)"
    using Cons.IH [OF bound] by (simp add: step Add_maxSize)
  also have "\<dots> = take (maxSize rb) (metrics rb @ m # ms)"
  proof (cases "length (metrics rb) < maxSize rb")
    case True
    then show ?thesis by simp
  next
    case False
    with Cons.prems have "length (metrics rb) = maxSize rb" by simp
    then show ?thesis by simp
  qed
  finally show ?case by simp
qed

text \<open>
  C4. Ring bound with drop-newest: starting from a buffer whose occupancy is within its
  capacity \<open>N = maxSize rb\<close> (a fresh buffer in particular), after any sequence \<open>ms\<close> of
  \<open>Add\<close> calls the occupancy is at most \<open>N\<close>, \<open>ReadAll\<close> returns the first \<open>N\<close> of the
  samples offered, in insertion order, and an \<open>Add\<close> at occupancy \<open>\<ge> N\<close> leaves the
  buffer as it is.
\<close>

theorem ring_bound_drop_newest:
  assumes "length (metrics rb) \<le> maxSize rb"
  shows "length (ReadAll (foldl Add rb ms)) \<le> maxSize rb
       \<and> ReadAll (foldl Add rb ms) = take (maxSize rb) (metrics rb @ ms)
       \<and> (maxSize rb \<le> length (ReadAll (foldl Add rb ms))
            \<longrightarrow> Add (foldl Add rb ms) m = foldl Add rb ms)"
proof -
  have eq: "metrics (foldl Add rb ms) = take (maxSize rb) (metrics rb @ ms)"
    using assms by (rule foldl_Add_metrics)
  have full: "maxSize rb \<le> length (metrics (foldl Add rb ms))
              \<longrightarrow> Add (foldl Add rb ms) m = foldl Add rb ms"
    by (simp add: Add_def foldl_Add_maxSize)
  show ?thesis
    using eq full by (simp add: ReadAll_def)
qed

theorem ring_bound_drop_newest_witness:
  "NewRingBuffer 4 = Some \<lparr>metrics = [], maxSize = 4\<rparr>
   \<and> ReadAll (foldl Add \<lparr>metrics = [], maxSize = 4\<rparr>
        (map (\<lambda>k. \<lparr>Time = k, ResourceID = 1, Type = ''cpu_ms'', Value = 0\<rparr>)
             [1, 2, 3, 4, 5, 6]))
     = map (\<lambda>k. \<lparr>Time = k, ResourceID = 1, Type = ''cpu_ms'', Value = 0\<rparr>)
           [1, 2, 3, 4]
   \<and> Add (foldl Add \<lparr>metrics = [], maxSize = 4\<rparr>
        (map (\<lambda>k. \<lparr>Time = k, ResourceID = 1, Type = ''cpu_ms'', Value = 0\<rparr>)
             [1, 2, 3, 4, 5, 6]))
        \<lparr>Time = 7, ResourceID = 1, Type = ''cpu_ms'', Value = 0\<rparr>
     = foldl Add \<lparr>metrics = [], maxSize = 4\<rparr>
        (map (\<lambda>k. \<lparr>Time = k, ResourceID = 1, Type = ''cpu_ms'', Value = 0\<rparr>)
             [1, 2, 3, 4, 5, 6])"
  using ring_bound_drop_newest
          [of "\<lparr>metrics = [], maxSize = 4\<rparr>"
              "map (\<lambda>k. \<lparr>Time = k, ResourceID = 1, Type = ''cpu_ms'', Value = 0\<rparr>)
                   [1, 2, 3, 4, 5, 6]"
              "\<lparr>Time = 7, ResourceID = 1, Type = ''cpu_ms'', Value = 0\<rparr>"]
  by (simp add: NewRingBuffer_def)

text \<open>
  C5. Flush swap semantics: \<open>Flush\<close> returns exactly what \<open>ReadAll\<close> returned just before
  and leaves an empty buffer of the same capacity; the returned samples followed by the
  samples left in the buffer are the samples buffered before, so each of them is in
  exactly one of the two.
\<close>

theorem flush_swap:
  "fst (Flush rb) = ReadAll rb
   \<and> ReadAll (snd (Flush rb)) = []
   \<and> maxSize (snd (Flush rb)) = maxSize rb
   \<and> fst (Flush rb) @ ReadAll (snd (Flush rb)) = ReadAll rb
   \<and> set (fst (Flush rb)) \<inter> set (ReadAll (snd (Flush rb))) = {}"
  by (simp add: Flush_def ReadAll_def)


section \<open>Properties of the Identity Store\<close>

lemma find_map_keep:
  assumes "\<And>x. P x \<Longrightarrow> P (u x)"
  shows "find P (map (\<lambda>x. if P x then u x else x) xs) = map_option u (find P xs)"
  by (induction xs) (auto simp: assms)

lemma find_append_new:
  "find P xs = None \<Longrightarrow> P y \<Longrightarrow> find P (xs @ [y]) = Some y"
  by (induction xs) (auto split: if_splits)

text \<open>
  Running the statement again with the same key returns the same id and keeps the
  number of rows, whatever the second \<open>SET\<close> clause writes into the other columns.
\<close>

lemma upsert_row_again:
  assumes keep: "\<And>x. conflict x \<Longrightarrow> conflict (upd x) \<and> idof (upd x) = idof x"
      and mk: "\<And>i. conflict (mk i) \<and> idof (mk i) = i"
  shows "fst (upsert_row conflict idof upd' mk' (snd (upsert_row conflict idof upd mk t)))
         = fst (upsert_row conflict idof upd mk t)
       \<and> length (rows (snd (upsert_row conflict idof upd' mk'
                             (snd (upsert_row conflict idof upd mk t)))))
         = length (rows (snd (upsert_row conflict idof upd mk t)))"
proof (cases "find conflict (rows t)")
  case None
  have "find conflict (rows t @ [mk (seq t + 1)]) = Some (mk (seq t + 1))"
    using None mk by (simp add: find_append_new)
  then show ?thesis
    using None mk by (simp add: upsert_row_def)
next
  case (Some r)
  have "conflict r" using Some by (auto simp: find_Some_iff)
  have "find conflict (map (\<lambda>x. if conflict x then upd x else x) (rows t)) = Some (upd r)"
    using Some keep by (simp add: find_map_keep)
  then show ?thesis
    using Some keep [OF \<open>conflict r\<close>] by (simp add: upsert_row_def)
qed

lemma UpsertNamespace_again:
  "fst (again (UpsertNamespace name) t s) = fst (UpsertNamespace name s)
   \<and> length (rows (namespaces_tbl (snd (again (UpsertNamespace name) t s))))
     = length (rows (namespaces_tbl (snd (UpsertNamespace name s))))"
  using upsert_row_again [of "\<lambda>r. ns_name r = name" "\<lambda>r. r" ns_id
           "\<lambda>i. \<lparr>ns_id = i, ns_name = name\<rparr>" "\<lambda>r. r"
           "\<lambda>i. \<lparr>ns_id = i, ns_name = name\<rparr>" "namespaces_tbl s"]
  by (simp add: again_def UpsertNamespace_def case_prod_beta)

lemma UpsertNode_again:
  "fst (again (UpsertNode uid name) t s) = fst (UpsertNode uid name s)
   \<and> length (rows (nodes_tbl (snd (again (UpsertNode uid name) t s))))
     = length (rows (nodes_tbl (snd (UpsertNode uid name s))))"
  using upsert_row_again [of "\<lambda>r. node_uid r = uid"
           "\<lambda>r. r\<lparr>node_name := name, node_updated_at := clock s\<rparr>" node_id
           "\<lambda>i. \<lparr>node_id = i, node_uid = uid, node_name = name, node_updated_at = clock s\<rparr>"
           "\<lambda>r. r\<lparr>node_name := name, node_updated_at := t\<rparr>"
           "\<lambda>i. \<lparr>node_id = i, node_uid = uid, node_name = name, node_updated_at = t\<rparr>"
           "nodes_tbl s"]
  by (simp add: again_def UpsertNode_def case_prod_beta)

lemma upsert_owned_again:
  "fst (upsert_owned uid name nsID t' (snd (upsert_owned uid name nsID t0 t)))
     = fst (upsert_owned uid name nsID t0 t)
   \<and> length (rows (snd (upsert_owned uid name nsID t'
                         (snd (upsert_owned uid name nsID t0 t)))))
     = length (rows (snd (upsert_owned uid name nsID t0 t)))"
  unfolding upsert_owned_def
  by (rule upsert_row_again) simp_all

lemma UpsertDeployment_again:
  "fst (again (UpsertDeployment uid name nsID) t s) = fst (UpsertDeployment uid name nsID s)
   \<and> length (rows (deployments_tbl (snd (again (UpsertDeployment uid name nsID) t s))))
     = length (rows (deployments_tbl (snd (UpsertDeployment uid name nsID s))))"
  using upsert_owned_again [of uid name nsID t "clock s" "deployments_tbl s"]
  by (simp add: again_def UpsertDeployment_def case_prod_beta)

lemma UpsertStatefulSet_again:
  "fst (again (UpsertStatefulSet uid name nsID) t s) = fst (UpsertStatefulSet uid name nsID s)
   \<and> length (rows (statefulsets_tbl (snd (again (UpsertStatefulSet uid name nsID) t s))))
     = length (rows (statefulsets_tbl (snd (UpsertStatefulSet uid name nsID s))))"
  using upsert_owned_again [of uid name nsID t "clock s" "statefulsets_tbl s"]
  by (simp add: again_def UpsertStatefulSet_def case_prod_beta)

lemma UpsertDaemonSet_again:
  "fst (again (UpsertDaemonSet uid name nsID) t s) = fst (UpsertDaemonSet uid name nsID s)
   \<and> length (rows (daemonsets_tbl (snd (again (UpsertDaemonSet uid name nsID) t s))))
     = length (rows (daemonsets_tbl (snd (UpsertDaemonSet uid name nsID s))))"
  using upsert_owned_again [of uid name nsID t "clock s" "daemonsets_tbl s"]
  by (simp add: again_def UpsertDaemonSet_def case_prod_beta)

lemma UpsertPVC_again:
  "fst (again (UpsertPVC uid name nsID) t s) = fst (UpsertPVC uid name nsID s)
   \<and> length (rows (pvcs_tbl (snd (again (UpsertPVC uid name nsID) t s))))
     = length (rows (pvcs_tbl (snd (UpsertPVC uid name nsID s))))"
  using upsert_owned_again [of uid name nsID t "clock s" "pvcs_tbl s"]
  by (simp add: again_def UpsertPVC_def case_prod_beta)

lemma UpsertPod_again:
  "fst (again (UpsertPod uid name nsID nodeID depID stsID dsID) t s)
     = fst (UpsertPod uid name nsID nodeID depID stsID dsID s)
   \<and> length (rows (pods_tbl (snd (again (UpsertPod uid name nsID nodeID depID stsID dsID) t s))))
     = length (rows (pods_tbl (snd (UpsertPod uid name nsID nodeID depID stsID dsID s))))"
  using upsert_row_again [of "\<lambda>r. pod_uid r = uid"
       "\<lambda>r. r\<lparr>pod_name := name, pod_namespace_id := nsID, pod_node_id := nodeID,
              pod_deployment_id := depID, pod_statefulset_id := stsID,
              pod_daemonset_id := dsID, pod_updated_at := clock s\<rparr>" pod_id
       "\<lambda>i. \<lparr>pod_id = i, pod_uid = uid, pod_name = name, pod_namespace_id = nsID,
              pod_node_id = nodeID, pod_deployment_id = depID,
              pod_statefulset_id = stsID, pod_daemonset_id = dsID,
              pod_updated_at = clock s\<rparr>"
       "\<lambda>r. r\<lparr>pod_name := name, pod_namespace_id := nsID, pod_node_id := nodeID,
              pod_deployment_id := depID, pod_statefulset_id := stsID,
              pod_daemonset_id := dsID, pod_updated_at := t\<rparr>"
       "\<lambda>i. \<lparr>pod_id = i, pod_uid = uid, pod_name = name, pod_namespace_id = nsID,
              pod_node_id = nodeID, pod_deployment_id = depID,
              pod_statefulset_id = stsID, pod_daemonset_id = dsID,
              pod_updated_at = t\<rparr>" "pods_tbl s"]
  by (simp add: again_def UpsertPod_def case_prod_beta)

text \<open>
  C9. Idempotent upsert: for each of the seven kinds, the same upsert performed a
  second time (same uid, or name for a namespace, and the same fields; at any later
  clock reading \<open>t\<close>) returns what the first call returned, the same id, and the table
  has as many rows after the second call as after the first.
\<close>

theorem idempotent_upsert:
  "(fst (again (UpsertNamespace name) t s) = fst (UpsertNamespace name s)
    \<and> length (rows (namespaces_tbl (snd (again (UpsertNamespace name) t s))))
      = length (rows (namespaces_tbl (snd (UpsertNamespace name s)))))
   \<and> (fst (again (UpsertNode uid name) t s) = fst (UpsertNode uid name s)
    \<and> length (rows (nodes_tbl (snd (again (UpsertNode uid name) t s))))
      = length (rows (nodes_tbl (snd (UpsertNode uid name s)))))
   \<and> (fst (again (UpsertDeployment uid name nsID) t s) = fst (UpsertDeployment uid name nsID s)
    \<and> length (rows (deployments_tbl (snd (again (UpsertDeployment uid name nsID) t s))))
      = length (rows (deployments_tbl (snd (UpsertDeployment uid name nsID s)))))
   \<and> (fst (again (UpsertStatefulSet uid name nsID) t s) = fst (UpsertStatefulSet uid name nsID s)
    \<and> length (rows (statefulsets_tbl (snd (again (UpsertStatefulSet uid name nsID) t s))))
      = length (rows (statefulsets_tbl (snd (UpsertStatefulSet uid name nsID s)))))
   \<and> (fst (again (UpsertDaemonSet uid name nsID) t s) = fst (UpsertDaemonSet uid name nsID s)
    \<and> length (rows (daemonsets_tbl (snd (again (UpsertDaemonSet uid name nsID) t s))))
      = length (rows (daemonsets_tbl (snd (UpsertDaemonSet uid name nsID s)))))
   \<and> (fst (again (UpsertPod uid name nsID nodeID depID stsID dsID) t s)
      = fst (UpsertPod uid name nsID nodeID depID stsID dsID s)
    \<and> length (rows (pods_tbl (snd (again (UpsertPod uid name nsID nodeID depID stsID dsID) t s))))
      = length (rows (pods_tbl (snd (UpsertPod uid name nsID nodeID depID stsID dsID s)))))
   \<and> (fst (again (UpsertPVC uid name nsID) t s) = fst (UpsertPVC uid name nsID s)
    \<and> length (rows (pvcs_tbl (snd (again (UpsertPVC uid name nsID) t s))))
      = length (rows (pvcs_tbl (snd (UpsertPVC uid name nsID s)))))"
  using UpsertNamespace_again [of name t s] UpsertNode_again [of uid name t s]
        UpsertDeployment_again [of uid name nsID t s]
        UpsertStatefulSet_again [of uid name nsID t s]
        UpsertDaemonSet_again [of uid name nsID t s]
        UpsertPod_again [of uid name nsID nodeID depID stsID dsID t s]
        UpsertPVC_again [of uid name nsID t s]
  by blast

lemmas store_defs =
  example_store_def NewSQLiteStore_def empty_table_def UpsertNamespace_def UpsertNode_def
  UpsertDeployment_def UpsertStatefulSet_def UpsertDaemonSet_def UpsertPod_def UpsertPVC_def
  upsert_owned_def upsert_row_def has_id_def opt_has_id_def again_def

theorem idempotent_upsert_witness:
  "fst (UpsertNamespace ''ns-a'' example_store) = Inr 1
   \<and> fst (again (UpsertNamespace ''ns-a'') 7 example_store) = Inr 1
   \<and> length (rows (namespaces_tbl (snd (again (UpsertNamespace ''ns-a'') 7 example_store)))) = 1
   \<and> fst (UpsertPod ''p-1'' ''ns-a'' 1 1 None None None example_store) = Inr 1
   \<and> fst (again (UpsertPod ''p-1'' ''ns-a'' 1 1 None None None) 7 example_store) = Inr 1
   \<and> length (rows (pods_tbl (snd (again (UpsertPod ''p-1'' ''ns-a'' 1 1 None None None) 7
                                     example_store)))) = 1
   \<and> fst (UpsertPVC ''p-1'' ''ns-a'' 1 example_store) = Inr 1
   \<and> fst (again (UpsertPVC ''p-1'' ''ns-a'' 1) 7 example_store) = Inr 1
   \<and> fst (UpsertNode ''p-1'' ''ns-a'' example_store) = Inr 2
   \<and> fst (again (UpsertNode ''p-1'' ''ns-a'') 7 example_store) = Inr 2
   \<and> length (rows (nodes_tbl (snd (again (UpsertNode ''p-1'' ''ns-a'') 7 example_store)))) = 2"
  using idempotent_upsert [of "''ns-a''" 7 example_store "''p-1''" 1 1 None None None]
  by (simp add: store_defs)

section \<open>Properties of the Resource Syncer\<close>

lemma getNamespaceID_frame:
  "getNamespaceID nm s = (i, s') \<Longrightarrow>
     pods s' = pods s \<and> pvcs s' = pvcs s \<and> nodes s' = nodes s \<and> replicaSets s' = replicaSets s
     \<and> nodes_tbl (sqlite s') = nodes_tbl (sqlite s)
     \<and> pods_tbl (sqlite s') = pods_tbl (sqlite s)
     \<and> closed (sqlite s') = closed (sqlite s) \<and> clock (sqlite s') = clock (sqlite s)"
  by (auto simp: getNamespaceID_def UpsertNamespace_def case_prod_beta
           split: option.splits sum.splits if_splits)


lemma getNodeID_miss_cache:
  "nodes s nm = None \<Longrightarrow> getNodeID nm uid s = (i, s') \<Longrightarrow>
   (nodes s' nm = None \<and> i = 0 \<and> s' = s)
   \<or> (nodes s' = (nodes s)(nm \<mapsto> i) \<and> \<not> closed (sqlite s)
       \<and> (i, nodes_tbl (sqlite s')) =
           upsert_row (\<lambda>r. node_uid r = (if uid = [] then ''stub-'' @ nm else uid)) node_id
             (\<lambda>r. r\<lparr>node_name := nm, node_updated_at := clock (sqlite s)\<rparr>)
             (\<lambda>i. \<lparr>node_id = i, node_uid = (if uid = [] then ''stub-'' @ nm else uid),
                    node_name = nm, node_updated_at = clock (sqlite s)\<rparr>)
             (nodes_tbl (sqlite s)))"
  by (auto simp: getNodeID_def UpsertNode_def case_prod_beta
           split: option.splits sum.splits if_splits)

lemma UpsertPod_frame:
  "UpsertPod uid name nsID nodeID depID stsID dsID db = (r, db') \<Longrightarrow>
     nodes_tbl db' = nodes_tbl db \<and> namespaces_tbl db' = namespaces_tbl db
     \<and> closed db' = closed db \<and> clock db' = clock db"
  by (auto simp: UpsertPod_def case_prod_beta split: if_splits)





lemma syncPod_node_effect:
  "(nodes (syncPod pod s) = nodes s
      \<and> nodes_tbl (sqlite (syncPod pod s)) = nodes_tbl (sqlite s))
   \<or> (NodeName pod \<noteq> []
      \<and> nodes (syncPod pod s)
          = nodes (snd (getNodeID (NodeName pod) [] (snd (getNamespaceID (Namespace pod) s))))
      \<and> nodes_tbl (sqlite (syncPod pod s))
          = nodes_tbl (sqlite (snd (getNodeID (NodeName pod) []
                                      (snd (getNamespaceID (Namespace pod) s))))))"
proof -
  obtain nsID s1 where ns: "getNamespaceID (Namespace pod) s = (nsID, s1)" by fastforce
  obtain nodeID s2 where nd: "getNodeID (NodeName pod) [] s1 = (nodeID, s2)" by fastforce
  obtain depID stsID dsID where
    ow: "syncPod_owners (OwnerReferences pod) s2 (None, None, None) = (depID, stsID, dsID)"
    using prod_cases3 by blast
  obtain res db where
    up: "UpsertPod (UID pod) (Name pod) nsID nodeID depID stsID dsID (sqlite s2) = (res, db)"
    by fastforce
  have f1: "nodes s1 = nodes s \<and> nodes_tbl (sqlite s1) = nodes_tbl (sqlite s)"
    using getNamespaceID_frame [OF ns] by simp
  have f3: "nodes_tbl db = nodes_tbl (sqlite s2)"
    using UpsertPod_frame [OF up] by simp
  show ?thesis
    using f1 f3 by (auto simp: syncPod_def ns nd ow up split: sum.splits)
qed

lemma upsert_row_fresh:
  "\<forall>r \<in> set (rows t). \<not> conflict r \<Longrightarrow>
   upsert_row conflict idof upd mk t
     = (seq t + 1, \<lparr>rows = rows t @ [mk (seq t + 1)], seq = seq t + 1\<rparr>)"
proof -
  assume "\<forall>r \<in> set (rows t). \<not> conflict r"
  then have "find conflict (rows t) = None" by (simp add: find_None_iff)
  then show ?thesis by (simp add: upsert_row_def)
qed

lemma upsert_row_rename_count:
  assumes "\<And>x. \<not> P (upd x)" and "\<And>i. \<not> P (mk i)"
  shows "length (filter P (rows (snd (upsert_row conflict idof upd mk t))))
         \<le> length (filter P (rows t))"
proof (cases "find conflict (rows t)")
  case None
  then show ?thesis using assms(2) by (simp add: upsert_row_def)
next
  case (Some r)
  have "length (filter P (map (\<lambda>x. if conflict x then upd x else x) xs)) \<le> length (filter P xs)"
    for xs
    by (induction xs) (auto simp: assms(1) le_SucI)
  then show ?thesis using Some by (simp add: upsert_row_def)
qed

lemma getNodeID_keeps:
  assumes "nodes s nm = Some i"
  shows "nodes (snd (getNodeID nm' uid s)) nm = Some i
         \<and> rows_named nm (snd (getNodeID nm' uid s)) \<le> rows_named nm s"
proof (cases "nodes s nm'")
  case (Some j)
  then show ?thesis using assms by (simp add: getNodeID_def)
next
  case None
  then have ne: "nm' \<noteq> nm" using assms by auto
  let ?u = "if uid = [] then ''stub-'' @ nm' else uid"
  have cnt: "length (filter (\<lambda>r. node_name r = nm)
                (rows (snd (upsert_row (\<lambda>r. node_uid r = ?u) node_id
                  (\<lambda>r. r\<lparr>node_name := nm', node_updated_at := clock (sqlite s)\<rparr>)
                  (\<lambda>i. \<lparr>node_id = i, node_uid = ?u, node_name = nm',
                         node_updated_at = clock (sqlite s)\<rparr>) (nodes_tbl (sqlite s))))))
             \<le> length (filter (\<lambda>r. node_name r = nm) (rows (nodes_tbl (sqlite s))))"
    by (rule upsert_row_rename_count) (simp_all add: ne)
  show ?thesis
    using None assms ne cnt
    by (simp add: getNodeID_def UpsertNode_def rows_named_def case_prod_beta)
qed

lemma getNamespaceID_keeps:
  "nodes (snd (getNamespaceID ns s)) = nodes s
   \<and> nodes_tbl (sqlite (snd (getNamespaceID ns s))) = nodes_tbl (sqlite s)"
  using getNamespaceID_frame [of ns s] by (metis prod.collapse)

lemma syncPod_keeps:
  assumes "nodes s nm = Some i"
  shows "nodes (syncPod pod s) nm = Some i \<and> rows_named nm (syncPod pod s) \<le> rows_named nm s"
proof -
  let ?sn = "snd (getNamespaceID (Namespace pod) s)"
  have a: "nodes ?sn nm = Some i" and b: "rows_named nm ?sn = rows_named nm s"
    using assms getNamespaceID_keeps [of "Namespace pod" s] by (simp_all add: rows_named_def)
  from getNodeID_keeps [OF a, of "NodeName pod" "[]"] b syncPod_node_effect [of pod s] assms
  show ?thesis by (auto simp: rows_named_def)
qed

lemma owned_keeps:
  "nodes (syncDeployment d s) = nodes s
   \<and> nodes_tbl (sqlite (syncDeployment d s)) = nodes_tbl (sqlite s)"
  "nodes (syncStatefulSet d s) = nodes s
   \<and> nodes_tbl (sqlite (syncStatefulSet d s)) = nodes_tbl (sqlite s)"
  "nodes (syncDaemonSet d s) = nodes s
   \<and> nodes_tbl (sqlite (syncDaemonSet d s)) = nodes_tbl (sqlite s)"
  "nodes (syncPVC d s) = nodes s
   \<and> nodes_tbl (sqlite (syncPVC d s)) = nodes_tbl (sqlite s)"
  using getNamespaceID_keeps [of "Namespace d" s]
  by (auto simp: syncDeployment_def syncStatefulSet_def syncDaemonSet_def syncPVC_def
                 UpsertDeployment_def UpsertStatefulSet_def UpsertDaemonSet_def UpsertPVC_def
                 case_prod_beta split: sum.splits)

lemma syncReplicaSet_owners_keeps:
  "nodes (syncReplicaSet_owners u os s) = nodes s
   \<and> sqlite (syncReplicaSet_owners u os s) = sqlite s"
  by (induction os) (auto split: sum.splits)

lemma do_step_keeps:
  assumes "nodes s nm = Some i"
  shows "nodes (do_step st s) nm = Some i \<and> rows_named nm (do_step st s) \<le> rows_named nm s"
proof (cases st)
  case (Clock t)
  then show ?thesis using assms by (simp add: later_def rows_named_def)
next
  case (Watch ob)
  show ?thesis
  proof (cases ob)
    case (Node n)
    then show ?thesis
      using Watch getNodeID_keeps [OF assms, of "Name n" "UID n"] by (simp add: syncNode_def)
  next
    case (APod p)
    then show ?thesis using Watch syncPod_keeps [OF assms, of p] by simp
  next
    case (ReplicaSet r)
    then show ?thesis
      using Watch assms syncReplicaSet_owners_keeps [of "UID r" "OwnerReferences r" s]
      by (simp add: syncReplicaSet_def rows_named_def)
  qed (use Watch assms owned_keeps in \<open>simp_all add: rows_named_def\<close>)
qed

lemma run_keeps:
  "nodes s nm = Some i \<Longrightarrow>
   nodes (run steps s) nm = Some i \<and> rows_named nm (run steps s) \<le> rows_named nm s"
proof (induction steps arbitrary: s)
  case Nil
  then show ?case by (simp add: run_def)
next
  case (Cons st steps)
  from do_step_keeps [OF Cons.prems, of st]
  have a: "nodes (do_step st s) nm = Some i"
    and b: "rows_named nm (do_step st s) \<le> rows_named nm s" by simp_all
  from Cons.IH [OF a] b show ?case by (simp add: run_def)
qed

text \<open>
  C1 (as the code has it). Stub-to-real node reconciliation: a Pod event names a node
  that the \<open>nodes\<close> cache has not seen and of which the table has no row, and the stub
  path succeeds, binding the name to the id \<open>i\<close>. When a Node event with that name (and
  any uid) is processed afterwards, at any clock reading, the table holds exactly one
  row for the name, the row with id \<open>i\<close> and the uid \<open>stub-<name>\<close>; the Node event
  changes neither the store nor the caches; the cache binds the name to \<open>i\<close> before
  and after. Whatever that syncer processes after the stub was made, the cache keeps
  the binding and the table never holds a second row for the name.
\<close>

theorem stub_then_real_node:
  assumes unseen: "nodes s (NodeName pod) = None"
      and fresh: "\<forall>r \<in> set (rows (nodes_tbl (sqlite s))).
                    node_name r \<noteq> NodeName pod \<and> node_uid r \<noteq> ''stub-'' @ NodeName pod"
      and stub: "nodes (syncPod pod s) (NodeName pod) = Some i"
      and real: "Name n = NodeName pod"
  shows "let s1 = syncPod pod s;
             s1' = later t s1;
             s2 = syncNode n s1'
         in map (\<lambda>r. (node_id r, node_uid r))
              (filter (\<lambda>r. node_name r = NodeName pod) (rows (nodes_tbl (sqlite s2))))
            = [(i, ''stub-'' @ NodeName pod)]
          \<and> s2 = s1'
          \<and> nodes s1 (NodeName pod) = Some i
          \<and> nodes s2 (NodeName pod) = Some i
          \<and> nodes (run steps s1) (NodeName pod) = Some i
          \<and> rows_named (NodeName pod) (run steps s1) \<le> 1"
proof -
  let ?nm = "NodeName pod"
  let ?s1 = "syncPod pod s"
  let ?s1' = "?s1\<lparr>sqlite := (sqlite ?s1)\<lparr>clock := t\<rparr>\<rparr>"
  obtain nsID sn where ns: "getNamespaceID (Namespace pod) s = (nsID, sn)" by fastforce
  obtain nodeID sd where nd: "getNodeID ?nm [] sn = (nodeID, sd)" by fastforce
  have fn: "nodes sn = nodes s \<and> nodes_tbl (sqlite sn) = nodes_tbl (sqlite s)"
    using getNamespaceID_frame [OF ns] by simp
  have eff: "nodes ?s1 = nodes sd \<and> nodes_tbl (sqlite ?s1) = nodes_tbl (sqlite sd)"
    using syncPod_node_effect [of pod s] unseen stub by (auto simp: ns nd)
  have miss: "nodes sn ?nm = None" using fn unseen by simp
  have hit: "nodes sd = (nodes sn)(?nm \<mapsto> nodeID) \<and>
        (nodeID, nodes_tbl (sqlite sd)) =
           upsert_row (\<lambda>r. node_uid r = ''stub-'' @ ?nm) node_id
             (\<lambda>r. r\<lparr>node_name := ?nm, node_updated_at := clock (sqlite sn)\<rparr>)
             (\<lambda>i. \<lparr>node_id = i, node_uid = ''stub-'' @ ?nm,
                    node_name = ?nm, node_updated_at = clock (sqlite sn)\<rparr>)
             (nodes_tbl (sqlite sn))"
    using getNodeID_miss_cache [OF miss nd] eff stub by auto
  have i: "nodeID = i" using hit eff stub by simp
  have tbl: "i = seq (nodes_tbl (sqlite s)) + 1 \<and>
        rows (nodes_tbl (sqlite ?s1)) = rows (nodes_tbl (sqlite s))
          @ [\<lparr>node_id = i, node_uid = ''stub-'' @ ?nm, node_name = ?nm,
               node_updated_at = clock (sqlite sn)\<rparr>]"
  proof -
    have "\<forall>r \<in> set (rows (nodes_tbl (sqlite sn))). \<not> node_uid r = ''stub-'' @ ?nm"
      using fresh fn by simp
    from upsert_row_fresh [OF this] hit i eff fn show ?thesis
      by (metis Pair_inject table.select_convs(1))
  qed
  have none: "filter (\<lambda>r. node_name r = ?nm) (rows (nodes_tbl (sqlite s))) = []"
    using fresh by (simp add: filter_empty_conv)
  have one: "map (\<lambda>r. (node_id r, node_uid r))
               (filter (\<lambda>r. node_name r = ?nm) (rows (nodes_tbl (sqlite ?s1))))
             = [(i, ''stub-'' @ ?nm)]"
    using tbl none by simp
  have noop: "syncNode n ?s1' = ?s1'"
    using stub real by (simp add: syncNode_def getNodeID_def)
  have "rows_named ?nm ?s1 = 1"
    using tbl none by (simp add: rows_named_def)
  then have ever: "nodes (run steps ?s1) ?nm = Some i \<and> rows_named ?nm (run steps ?s1) \<le> 1"
    using run_keeps [OF stub, of steps] by simp
  show ?thesis
    using one noop stub ever by (simp add: Let_def later_def)
qed

lemmas syncer_defs =
  example_syncer_def unscheduled_pod_def scheduled_pod_def real_node_def later_def
  closed_syncer_def Close_def NewResourceSyncer_def syncPod_def syncNode_def
  getNamespaceID_def getNodeID_def

theorem stub_then_real_node_witness:
  "nodes example_syncer (NodeName scheduled_pod) = None
   \<and> nodes (syncPod scheduled_pod example_syncer) (NodeName scheduled_pod) = Some 1
   \<and> Name real_node = NodeName scheduled_pod
   \<and> rows (nodes_tbl (sqlite (syncNode real_node (later 9 (syncPod scheduled_pod example_syncer)))))
     = [\<lparr>node_id = 1, node_uid = ''stub-host-1'', node_name = ''host-1'', node_updated_at = 0\<rparr>]
   \<and> nodes (syncNode real_node (later 9 (syncPod scheduled_pod example_syncer))) ''host-1''
     = Some 1
   \<and> rows_named ''host-1''
        (run [Clock 9, Watch (Node real_node), Watch (APod scheduled_pod)]
           (syncPod scheduled_pod example_syncer)) = 1"
  using stub_then_real_node
          [of example_syncer scheduled_pod 1 real_node 9
              "[Clock 9, Watch (Node real_node), Watch (APod scheduled_pod)]"]
  by (simp add: syncer_defs store_defs run_def rows_named_def)

text \<open>
  The Node event of \<open>host-1\<close> carries the uid \<open>n-1\<close> and arrives at clock reading 9, after
  the stub row was written at clock reading 0: the row is as it was, with the stub uid
  and the old \<open>updated_at\<close>.
\<close>

theorem real_node_event_updates_row_counterexample:
  "UID real_node = ''n-1'' \<and> Name real_node = ''host-1''
   \<and> rows (nodes_tbl (sqlite (syncPod scheduled_pod example_syncer)))
     = [\<lparr>node_id = 1, node_uid = ''stub-host-1'', node_name = ''host-1'', node_updated_at = 0\<rparr>]
   \<and> rows (nodes_tbl (sqlite (syncNode real_node (later 9 (syncPod scheduled_pod example_syncer)))))
     = [\<lparr>node_id = 1, node_uid = ''stub-host-1'', node_name = ''host-1'', node_updated_at = 0\<rparr>]"
  by (simp add: syncer_defs store_defs)

text \<open>
  The single row relies on the \<open>nodes\<close> cache: a syncer started anew on the same store,
  with empty caches, inserts a second row for the name when the Node event arrives.
\<close>

lemma second_node_row_without_cache:
  "map (\<lambda>r. (node_uid r, node_name r))
     (rows (nodes_tbl (sqlite (syncNode real_node
        (NewResourceSyncer (sqlite (syncPod scheduled_pod example_syncer)))))))
   = [(''stub-host-1'', ''host-1''), (''n-1'', ''host-1'')]"
  by (simp add: syncer_defs store_defs)




section \<open>Properties of the live view\<close>

lemma aggregate_step_no_pvc: "snd (aggregate_step pid c (cm, []) m) = []"
  by (simp add: aggregate_step_def)

lemma aggregate_no_pvc:
  "snd (foldl (aggregate_step pid c) (cm, []) ms) = []"
proof (induction ms arbitrary: cm)
  case Nil
  show ?case by simp
next
  case (Cons m ms)
  obtain cm' where "aggregate_step pid c (cm, []) m = (cm', [])"
    using aggregate_step_no_pvc [of pid c cm m]
    by (cases "aggregate_step pid c (cm, []) m") auto
  then show ?case using Cons.IH [of cm'] by simp
qed

lemma fill_pod_PVCs: "PVCs (fill_pod c ms p) = PVCs p"
  using aggregate_no_pvc [of "LivePod_ID p" c None ms]
  by (simp add: fill_pod_def case_prod_beta)

lemma fill_pod_ID: "LivePod_ID (fill_pod c ms p) = LivePod_ID p"
  by (simp add: fill_pod_def case_prod_beta)

lemma live_query_PVCs: "p \<in> set (live_query depF nodeF podF s) \<Longrightarrow> PVCs p = []"
  by (auto simp: live_query_def)





text \<open>
  C10. In every response of the live view the \<open>pvcs\<close> list of every returned pod is
  empty: no branch of the aggregation loop inserts into \<open>pvcMetrics\<close>.
\<close>

theorem live_pvcs_empty:
  "handleLiveMetrics method depF nodeF podF now0 now1 s ring = Json resp \<Longrightarrow>
   \<forall>p \<in> set (Pods resp). PVCs p = []"
  by (auto simp: handleLiveMetrics_def Let_def fill_pod_PVCs live_query_PVCs split: if_splits)

lemma live_pods_ids:
  "set (map LivePod_ID (map (fill_pod c ms) (filter (\<lambda>p. LivePod_ID p \<in> set act) q)))
   = LivePod_ID ` set q \<inter> set act"
  by (auto simp: fill_pod_ID)



lemmas live_defs =
  live_store_def live_ring_def handleLiveMetrics_def ReadAll_def activePodIDs_def
  live_query_def where_clause_def left_join_deployment_def fill_pod_def aggregate_step_def
  default_container_def Let_def


theorem live_pvcs_empty_witness:
  "map Type (ReadAll live_ring) = [''cpu_ms'', ''used_mb'']
   \<and> (\<exists>resp. handleLiveMetrics ''GET'' None None None 1004999999999 1005000000000 live_store live_ring = Json resp
         \<and> map LivePod_ID (Pods resp) = [1] \<and> map PVCs (Pods resp) = [[]])"
  using live_pvcs_empty [of "''GET''" None None None 1004999999999 1005000000000 live_store live_ring]
  by (simp add: live_defs syncer_defs store_defs del: set_filter set_map)

section \<open>Properties of the Ingestion Endpoint\<close>

lemma hex_groups_join:
  "length a = n \<Longrightarrow> list_all lower_hex a \<Longrightarrow> hex_groups (m # ns) t \<Longrightarrow>
   hex_groups (n # m # ns) (a @ ''-'' @ t)"
  by simp

lemma hex_groups_split:
  assumes "hex_groups (n # m # ns) s"
  shows "\<exists>a t. s = a @ ''-'' @ t \<and> length a = n \<and> list_all lower_hex a \<and> hex_groups (m # ns) t"
proof -
  from assms have l: "length (take n s) = n" and h: "list_all lower_hex (take n s)"
    and sep: "take 1 (drop n s) = ''-''" and r: "hex_groups (m # ns) (drop (Suc n) s)"
    by simp_all
  have "drop n s = take 1 (drop n s) @ drop 1 (drop n s)"
    by (simp only: append_take_drop_id)
  then have "drop n s = ''-'' @ drop (Suc n) s" using sep by simp
  then have "s = take n s @ ''-'' @ drop (Suc n) s"
    by (metis append_take_drop_id)
  then show ?thesis using l h r by blast
qed

lemma HasPrefix_split: "HasPrefix s p \<Longrightarrow> s = p @ drop (length p) s"
  by (metis HasPrefix_def append_take_drop_id)

lemma pvcVolumeRegex_match:
  assumes "uuid_groups a b c d e"
  shows "pvcVolumeRegex (''pvc-'' @ uuid_text a b c d e)
         = [''pvc-'' @ uuid_text a b c d e, uuid_text a b c d e]"
proof -
  from assms have len: "length a = 8" "length b = 4" "length c = 4" "length d = 4" "length e = 12"
    and hex: "list_all lower_hex a" "list_all lower_hex b" "list_all lower_hex c"
             "list_all lower_hex d" "list_all lower_hex e"
    by (simp_all add: uuid_groups_def)
  have "hex_groups [12] e" using len hex by simp
  then have "hex_groups [4, 12] (d @ ''-'' @ e)" using len hex by (intro hex_groups_join) simp_all
  then have "hex_groups [4, 4, 12] (c @ ''-'' @ d @ ''-'' @ e)"
    using len hex by (intro hex_groups_join) simp_all
  then have "hex_groups [4, 4, 4, 12] (b @ ''-'' @ c @ ''-'' @ d @ ''-'' @ e)"
    using len hex by (intro hex_groups_join) simp_all
  then have "hex_groups [8, 4, 4, 4, 12] (a @ ''-'' @ b @ ''-'' @ c @ ''-'' @ d @ ''-'' @ e)"
    using len hex by (intro hex_groups_join) simp_all
  then have "hex_groups [8, 4, 4, 4, 12] (uuid_text a b c d e)"
    by (simp add: uuid_text_def)
  then show ?thesis by (simp add: pvcVolumeRegex_def HasPrefix_def)
qed

lemma pvcVolumeRegex_only:
  assumes "pvcVolumeRegex v \<noteq> []"
  shows "\<exists>a b c d e. uuid_groups a b c d e \<and> v = ''pvc-'' @ uuid_text a b c d e"
proof -
  from assms have pg: "HasPrefix v ''pvc-'' \<and> hex_groups [8, 4, 4, 4, 12] (drop 4 v)"
    unfolding pvcVolumeRegex_def by metis
  then have g: "hex_groups [8, 4, 4, 4, 12] (drop 4 v)" by simp
  have four: "length ''pvc-'' = 4" by simp
  have "v = ''pvc-'' @ drop (length ''pvc-'') v"
    using pg HasPrefix_split by blast
  then have v: "v = ''pvc-'' @ drop 4 v" unfolding four .
  from hex_groups_split [OF g] obtain a t1 where
    a: "drop 4 v = a @ ''-'' @ t1" "length a = 8" "list_all lower_hex a" "hex_groups [4, 4, 4, 12] t1"
    by blast
  from hex_groups_split [OF a(4)] obtain b t2 where
    b: "t1 = b @ ''-'' @ t2" "length b = 4" "list_all lower_hex b" "hex_groups [4, 4, 12] t2"
    by blast
  from hex_groups_split [OF b(4)] obtain c t3 where
    c: "t2 = c @ ''-'' @ t3" "length c = 4" "list_all lower_hex c" "hex_groups [4, 12] t3"
    by blast
  from hex_groups_split [OF c(4)] obtain d e where
    d: "t3 = d @ ''-'' @ e" "length d = 4" "list_all lower_hex d" "hex_groups [12] e"
    by blast
  have "uuid_groups a b c d e"
    using a b c d by (simp add: uuid_groups_def)
  moreover have "drop 4 v = uuid_text a b c d e"
    using a(1) b(1) c(1) d(1) by (simp add: uuid_text_def)
  ultimately show ?thesis using v by metis
qed

lemma takeWhile_nonempty:
  "takeWhile P xs \<noteq> [] \<longleftrightarrow> (case xs of [] \<Rightarrow> False | c # _ \<Rightarrow> P c)"
  by (cases xs) simp_all

lemma pod_match_at_run:
  "pod_match_at s = (HasPrefix s ''pod'' \<and> takeWhile hex_or_underscore (drop 3 s) \<noteq> [])"
  by (simp only: pod_match_at_def takeWhile_nonempty)

lemma podSliceRegex_no_match_here:
  "\<not> pod_match_at (c # cs) \<Longrightarrow> podSliceRegex (c # cs) = podSliceRegex cs"
  by (simp only: podSliceRegex.simps Let_def pod_match_at_run if_False)

lemma podSliceRegex_skip:
  "\<forall>i < length pre. \<not> pod_match_at (drop i (pre @ t)) \<Longrightarrow>
   podSliceRegex (pre @ t) = podSliceRegex t"
proof (induction pre)
  case Nil
  show ?case by simp
next
  case (Cons c pre)
  have here: "\<not> pod_match_at (c # pre @ t)"
    using Cons.prems by force
  have "\<forall>i < length pre. \<not> pod_match_at (drop i (pre @ t))"
  proof (intro allI impI)
    fix i assume "i < length pre"
    then have "\<not> pod_match_at (drop (Suc i) ((c # pre) @ t))"
      using Cons.prems by (metis Suc_less_eq length_Cons)
    then show "\<not> pod_match_at (drop i (pre @ t))" by simp
  qed
  then have "podSliceRegex (pre @ t) = podSliceRegex t" by (rule Cons.IH)
  then show ?case using podSliceRegex_no_match_here [OF here] by simp
qed

lemma takeWhile_run:
  assumes "list_all P cap" and "rest = [] \<or> \<not> P (hd rest)"
  shows "takeWhile P (cap @ rest) = cap \<and> dropWhile P (cap @ rest) = rest"
proof -
  have all: "\<And>x. x \<in> set cap \<Longrightarrow> P x" using assms(1) by (simp add: list_all_iff)
  have stop: "takeWhile P rest = [] \<and> dropWhile P rest = rest"
    using assms(2) by (cases rest) auto
  show ?thesis
    using all stop by (simp add: takeWhile_append2 dropWhile_append2)
qed

lemma podSliceRegex_here:
  assumes "cap \<noteq> []" and "list_all hex_or_underscore cap"
      and "rest = [] \<or> \<not> hex_or_underscore (hd rest)"
  shows "podSliceRegex (''pod'' @ cap @ rest)
         = [''pod'' @ cap @ (if HasPrefix rest ''.slice'' then ''.slice'' else []), cap]"
  using takeWhile_run [OF assms(2,3)] assms(1)
  by (simp add: Let_def HasPrefix_def)

lemma podSliceRegex_leftmost:
  assumes "cap \<noteq> []" and "list_all hex_or_underscore cap"
      and "rest = [] \<or> \<not> hex_or_underscore (hd rest)"
      and "\<forall>i < length pre. \<not> pod_match_at (drop i (pre @ ''pod'' @ cap @ rest))"
  shows "podSliceRegex (pre @ ''pod'' @ cap @ rest)
         = [''pod'' @ cap @ (if HasPrefix rest ''.slice'' then ''.slice'' else []), cap]"
  using podSliceRegex_skip [OF assms(4)] podSliceRegex_here [OF assms(1,2,3)]
  by (rule trans)

lemma resolveUID_volume:
  "volume_condition raw \<Longrightarrow>
   resolveUID raw =
     (if length (pvcVolumeRegex (Volume raw)) > 1 then (pvcVolumeRegex (Volume raw) ! 1, ''pvc'')
      else (PodUID raw, ''pod''))"
  by (simp add: resolveUID_def Let_def)

lemma resolveUID_container:
  "\<not> volume_condition raw \<Longrightarrow>
   resolveUID raw =
     (if length (podSliceRegex (PodID raw)) > 1
      then (ReplaceAll (podSliceRegex (PodID raw) ! 1) CHR ''_'' CHR ''-'', ''pod'')
      else ([], ''pod''))"
proof (cases "PodID raw = []")
  case True
  assume "\<not> volume_condition raw"
  then show ?thesis using True by (simp add: resolveUID_def)
next
  case False
  assume "\<not> volume_condition raw"
  then show ?thesis using False by (simp add: resolveUID_def Let_def del: podSliceRegex.simps)
qed

text \<open>
  C2 (as the code has it). Ingest volume/PVC classification: a metric takes the
  volume branch exactly when \<open>volume_condition\<close> holds, that is when its key is
  \<open>pvc_usage\<close> or its key contains \<open>_mb\<close> and its volume is not empty; every metric with
  a non-empty volume and one of the keys \<open>pvc_usage\<close>, \<open>total_mb\<close>, \<open>used_mb\<close>, \<open>free_mb\<close>
  does. In the volume branch a volume of the form \<open>pvc-<uuid>\<close> gives the uuid as uid
  with kind \<open>pvc\<close>; any other volume gives \<open>pod_uid\<close> with kind \<open>pod\<close>, and resolution
  yields 0 when \<open>pod_uid\<close> is empty. Outside the volume branch the uid comes from
  \<open>pod_id\<close> alone.
\<close>

theorem ingest_volume_classification:
  "(volume_condition raw \<longrightarrow>
      (\<forall>a b c d e. uuid_groups a b c d e \<and> Volume raw = ''pvc-'' @ uuid_text a b c d e
          \<longrightarrow> resolveUID raw = (uuid_text a b c d e, ''pvc''))
      \<and> ((\<nexists>a b c d e. uuid_groups a b c d e \<and> Volume raw = ''pvc-'' @ uuid_text a b c d e)
          \<longrightarrow> resolveUID raw = (PodUID raw, ''pod'')
              \<and> (PodUID raw = [] \<longrightarrow> resolveID res (resolveUID raw) = 0)))
   \<and> (\<not> volume_condition raw \<longrightarrow>
        resolveUID raw =
          (if length (podSliceRegex (PodID raw)) > 1
           then (ReplaceAll (podSliceRegex (PodID raw) ! 1) CHR ''_'' CHR ''-'', ''pod'')
           else ([], ''pod'')))
   \<and> (Volume raw \<noteq> [] \<and> Key raw \<in> {''pvc_usage'', ''total_mb'', ''used_mb'', ''free_mb''}
        \<longrightarrow> volume_condition raw)"
proof (intro conjI impI allI)
  fix a b c d e
  assume v: "volume_condition raw"
     and m: "uuid_groups a b c d e \<and> Volume raw = ''pvc-'' @ uuid_text a b c d e"
  show "resolveUID raw = (uuid_text a b c d e, ''pvc'')"
    using pvcVolumeRegex_match [of a b c d e] m by (simp add: resolveUID_volume [OF v])
next
  assume v: "volume_condition raw"
     and n: "\<nexists>a b c d e. uuid_groups a b c d e \<and> Volume raw = ''pvc-'' @ uuid_text a b c d e"
  have "pvcVolumeRegex (Volume raw) = []"
    using n pvcVolumeRegex_only [of "Volume raw"] by blast
  then show "resolveUID raw = (PodUID raw, ''pod'')"
    by (simp add: resolveUID_volume [OF v])
  then show "resolveID res (resolveUID raw) = 0" if "PodUID raw = []"
    using that by (simp add: resolveID_def)
next
  assume "\<not> volume_condition raw"
  then show "resolveUID raw =
          (if length (podSliceRegex (PodID raw)) > 1
           then (ReplaceAll (podSliceRegex (PodID raw) ! 1) CHR ''_'' CHR ''-'', ''pod'')
           else ([], ''pod''))"
    by (rule resolveUID_container)
next
  assume "Volume raw \<noteq> [] \<and> Key raw \<in> {''pvc_usage'', ''total_mb'', ''used_mb'', ''free_mb''}"
  then show "volume_condition raw"
    by (auto simp: volume_condition_def HasPrefix_def)
qed

lemmas ingest_defs =
  raw_metric_def hex_pod_def ingest_syncer_def example_batch_def resolveUID_def resolveID_def
  volume_condition_def pvcVolumeRegex_def HasPrefix_def ReplaceAll_def lower_hex_def
  hex_or_underscore_def Syncer_GetResourceID_def ingestMetric_def HandleIngest_def Add_def
  Let_def

theorem ingest_volume_classification_witness:
  "volume_condition (raw_metric ''used_mb'' 42 [] ''p-1'' ''pvc-11111111-2222-3333-4444-555555555555'' 1000)
   \<and> resolveUID (raw_metric ''used_mb'' 42 [] ''p-1'' ''pvc-11111111-2222-3333-4444-555555555555'' 1000)
     = (''11111111-2222-3333-4444-555555555555'', ''pvc'')
   \<and> volume_condition (raw_metric ''free_mb'' 42 [] ''p-1'' ''scratch'' 1000)
   \<and> resolveUID (raw_metric ''free_mb'' 42 [] ''p-1'' ''scratch'' 1000) = (''p-1'', ''pod'')
   \<and> \<not> volume_condition (raw_metric ''cpu_ms'' 42 ''podab_cd'' ''p-1'' ''scratch'' 1000)
   \<and> resolveUID (raw_metric ''cpu_ms'' 42 ''podab_cd'' ''p-1'' ''scratch'' 1000) = (''ab-cd'', ''pod'')"
  using ingest_volume_classification
          [of "raw_metric ''used_mb'' 42 [] ''p-1'' ''pvc-11111111-2222-3333-4444-555555555555'' 1000"
              example_syncer]
        ingest_volume_classification [of "raw_metric ''free_mb'' 42 [] ''p-1'' ''scratch'' 1000" example_syncer]
        ingest_volume_classification
          [of "raw_metric ''cpu_ms'' 42 ''podab_cd'' ''p-1'' ''scratch'' 1000" example_syncer]
  by (simp add: ingest_defs)

text \<open>
  A metric with key \<open>mem_mb\<close>, not one of the four keys, and a claim's volume name is
  resolved as that claim; a metric with key \<open>pvc_usage\<close> and no volume takes the volume
  branch, so its \<open>pod_id\<close> is not read, while the same metric with key \<open>cpu_ms\<close> is
  resolved from its \<open>pod_id\<close>.
\<close>

theorem volume_classification_counterexample:
  "Key (raw_metric ''mem_mb'' 1 ''pod4f2b'' [] ''pvc-11111111-2222-3333-4444-555555555555'' 1000)
     \<notin> {''pvc_usage'', ''total_mb'', ''used_mb'', ''free_mb''}
   \<and> resolveUID (raw_metric ''mem_mb'' 1 ''pod4f2b'' [] ''pvc-11111111-2222-3333-4444-555555555555'' 1000)
     = (''11111111-2222-3333-4444-555555555555'', ''pvc'')
   \<and> Volume (raw_metric ''pvc_usage'' 1 ''pod4f2b'' [] [] 1000) = []
   \<and> resolveUID (raw_metric ''pvc_usage'' 1 ''pod4f2b'' [] [] 1000) = ([], ''pod'')
   \<and> resolveUID (raw_metric ''cpu_ms'' 1 ''pod4f2b'' [] [] 1000) = (''4f2b'', ''pod'')"
  by (simp add: ingest_defs)

text \<open>
  C8. Cgroup pod-UID decode: for a container metric (one outside the volume branch)
  whose \<open>pod_id\<close> is \<open>pre @ pod @ cap @ rest\<close>, where \<open>cap\<close> is a non-empty run of
  \<open>[0-9a-fA-F_]\<close> that \<open>rest\<close> does not continue and the expression matches at no
  earlier position, the uid is \<open>cap\<close> with every underscore replaced by a hyphen, of
  kind \<open>pod\<close>; and the \<open>pod_id\<close>
  \<open>kubepods-burstable-pod4f2b_3a19_4c_aa22_0f11e2d33c44.slice\<close> gives the uid
  \<open>4f2b-3a19-4c-aa22-0f11e2d33c44\<close>.
\<close>

theorem cgroup_pod_uid_decode:
  assumes "\<not> volume_condition raw"
      and "PodID raw = pre @ ''pod'' @ cap @ rest"
      and "cap \<noteq> []" and "list_all hex_or_underscore cap"
      and "rest = [] \<or> \<not> hex_or_underscore (hd rest)"
      and "\<forall>i < length pre. \<not> pod_match_at (drop i (PodID raw))"
  shows "resolveUID raw = (ReplaceAll cap CHR ''_'' CHR ''-'', ''pod'')
       \<and> resolveUID (raw\<lparr>PodID := ''kubepods-burstable-pod4f2b_3a19_4c_aa22_0f11e2d33c44.slice''\<rparr>)
         = (''4f2b-3a19-4c-aa22-0f11e2d33c44'', ''pod'')"
proof
  have "podSliceRegex (PodID raw)
        = [''pod'' @ cap @ (if HasPrefix rest ''.slice'' then ''.slice'' else []), cap]"
    using podSliceRegex_leftmost [OF assms(3,4,5)] assms(6) unfolding assms(2) by blast
  then show "resolveUID raw = (ReplaceAll cap CHR ''_'' CHR ''-'', ''pod'')"
    by (simp add: resolveUID_container [OF assms(1)])
next
  let ?r = "raw\<lparr>PodID := ''kubepods-burstable-pod4f2b_3a19_4c_aa22_0f11e2d33c44.slice''\<rparr>"
  have nv: "\<not> volume_condition ?r"
    using assms(1) by (simp add: volume_condition_def)
  have "podSliceRegex ''kubepods-burstable-pod4f2b_3a19_4c_aa22_0f11e2d33c44.slice''
        = [''pod4f2b_3a19_4c_aa22_0f11e2d33c44.slice'', ''4f2b_3a19_4c_aa22_0f11e2d33c44'']"
    by (simp add: HasPrefix_def hex_or_underscore_def)
  then show "resolveUID ?r = (''4f2b-3a19-4c-aa22-0f11e2d33c44'', ''pod'')"
    by (simp add: resolveUID_container [OF nv] ReplaceAll_def)
qed

lemma all_less_list_all: "(\<forall>i<n. P i) = list_all P [0..<n]"
  by (auto simp: list_all_iff)

theorem cgroup_pod_uid_decode_witness:
  "\<not> volume_condition (hd (Metrics example_batch))
   \<and> PodID (hd (Metrics example_batch))
     = ''kubepods-burstable-'' @ ''pod'' @ ''4f2b_3a19_4c_aa22_0f11e2d33c44'' @ ''.slice''
   \<and> list_all hex_or_underscore ''4f2b_3a19_4c_aa22_0f11e2d33c44''
   \<and> \<not> hex_or_underscore (hd ''.slice'')
   \<and> list_all (\<lambda>i. \<not> pod_match_at (drop i (PodID (hd (Metrics example_batch)))))
        [0..<length ''kubepods-burstable-'']
   \<and> resolveUID (hd (Metrics example_batch)) = (''4f2b-3a19-4c-aa22-0f11e2d33c44'', ''pod'')"
proof -
  have h1: "\<not> volume_condition (hd (Metrics example_batch))"
    by (simp add: example_batch_def raw_metric_def volume_condition_def HasPrefix_def)
  have h2: "PodID (hd (Metrics example_batch))
     = ''kubepods-burstable-'' @ ''pod'' @ ''4f2b_3a19_4c_aa22_0f11e2d33c44'' @ ''.slice''"
    by (simp add: example_batch_def raw_metric_def)
  have h3: "''4f2b_3a19_4c_aa22_0f11e2d33c44'' \<noteq> []" by simp
  have h4: "list_all hex_or_underscore ''4f2b_3a19_4c_aa22_0f11e2d33c44''"
    by (simp add: hex_or_underscore_def)
  have h5: "''.slice'' = [] \<or> \<not> hex_or_underscore (hd ''.slice'')"
    by (simp add: hex_or_underscore_def)
  have h6: "\<forall>i < length ''kubepods-burstable-''.
         \<not> pod_match_at (drop i (PodID (hd (Metrics example_batch))))"
    unfolding all_less_list_all
    by (simp add: example_batch_def raw_metric_def pod_match_at_def HasPrefix_def
                  hex_or_underscore_def upt_rec)
  show ?thesis
    using cgroup_pod_uid_decode [OF h1 h2 h3 h4 h5 h6] h1 h2 h4 h5
          h6 [unfolded all_less_list_all]
    by (simp add: ReplaceAll_def)
qed

lemma foldl_Add_map:
  "foldl (\<lambda>b raw. Add b (f raw)) rb xs = foldl Add rb (map f xs)"
  by (induction xs arbitrary: rb) simp_all

text \<open>
  C7 (as the code has it). Resolution-miss safety: a \<open>POST\<close> with a decoded batch is
  answered 202 and offers one sample per metric to the window, in arrival order; a
  metric whose uid could not be determined, or whose uid the caches do not hold, gives
  the sample with \<open>resource_id = 0\<close> and the metric's key, value and timestamp; and when
  the window has room for the batch, every sample of the batch is appended to it.
\<close>

theorem resolution_miss_accepted:
  "fst (HandleIngest ''POST'' (Some req) res rb) = 202
   \<and> snd (HandleIngest ''POST'' (Some req) res rb)
     = foldl Add rb (map (ingestMetric res) (Metrics req))
   \<and> (length (metrics rb) + length (Metrics req) \<le> maxSize rb \<longrightarrow>
        ReadAll (snd (HandleIngest ''POST'' (Some req) res rb))
        = ReadAll rb @ map (ingestMetric res) (Metrics req))
   \<and> (\<forall>raw \<in> set (Metrics req).
        fst (resolveUID raw) = []
        \<or> Syncer_GetResourceID (fst (resolveUID raw)) (snd (resolveUID raw)) res = None
        \<longrightarrow> ingestMetric res raw
            = \<lparr>Time = Timestamp raw * 1000000000, ResourceID = 0, Type = Key raw,
               Value = RawValue raw\<rparr>)"
proof (intro conjI)
  show "fst (HandleIngest ''POST'' (Some req) res rb) = 202"
    by (simp add: HandleIngest_def)
  show run: "snd (HandleIngest ''POST'' (Some req) res rb)
     = foldl Add rb (map (ingestMetric res) (Metrics req))"
    using foldl_Add_map [of "ingestMetric res" rb "Metrics req"] by (simp add: HandleIngest_def)
  show "length (metrics rb) + length (Metrics req) \<le> maxSize rb \<longrightarrow>
        ReadAll (snd (HandleIngest ''POST'' (Some req) res rb))
        = ReadAll rb @ map (ingestMetric res) (Metrics req)"
  proof
    assume room: "length (metrics rb) + length (Metrics req) \<le> maxSize rb"
    then have "length (metrics rb) \<le> maxSize rb" by simp
    from foldl_Add_metrics [OF this, of "map (ingestMetric res) (Metrics req)"] room
    show "ReadAll (snd (HandleIngest ''POST'' (Some req) res rb))
        = ReadAll rb @ map (ingestMetric res) (Metrics req)"
      by (simp add: run ReadAll_def)
  qed
  show "\<forall>raw \<in> set (Metrics req).
        fst (resolveUID raw) = []
        \<or> Syncer_GetResourceID (fst (resolveUID raw)) (snd (resolveUID raw)) res = None
        \<longrightarrow> ingestMetric res raw
            = \<lparr>Time = Timestamp raw * 1000000000, ResourceID = 0, Type = Key raw,
               Value = RawValue raw\<rparr>"
    by (auto simp: ingestMetric_def resolveID_def case_prod_beta)
qed

lemma ingest_syncer_caches:
  "pods ingest_syncer = [''4f2b-3a19-4c-aa22-0f11e2d33c44'' \<mapsto> 1]
   \<and> pvcs ingest_syncer = Map.empty"
  by (simp add: ingest_syncer_def hex_pod_def syncer_defs store_defs)

lemma example_batch_uids:
  "map resolveUID (Metrics example_batch)
   = [(''4f2b-3a19-4c-aa22-0f11e2d33c44'', ''pod''), (''ffff-0000'', ''pod''),
      (''11111111-2222-3333-4444-555555555555'', ''pvc''), ([], ''pod'')]"
  by (simp add: example_batch_def raw_metric_def resolveUID_def volume_condition_def
                pvcVolumeRegex_def HasPrefix_def ReplaceAll_def lower_hex_def
                hex_or_underscore_def Let_def)

lemma example_batch_samples:
  "map (ingestMetric ingest_syncer) (Metrics example_batch)
   = [\<lparr>Time = 1000000000000, ResourceID = 1, Type = ''cpu_ms'', Value = 123\<rparr>,
      \<lparr>Time = 1000000000000, ResourceID = 0, Type = ''cpu_ms'', Value = 5\<rparr>,
      \<lparr>Time = 1000000000000, ResourceID = 0, Type = ''used_mb'', Value = 42\<rparr>,
      \<lparr>Time = 1000000000000, ResourceID = 0, Type = ''node_cpu'', Value = 7\<rparr>]"
  using example_batch_uids
  by (simp add: example_batch_def raw_metric_def ingestMetric_def resolveID_def
                Syncer_GetResourceID_def ingest_syncer_caches)

theorem resolution_miss_accepted_witness:
  "HandleIngest ''POST'' (Some example_batch) ingest_syncer \<lparr>metrics = [], maxSize = 10000\<rparr>
   = (202,
      \<lparr>metrics =
         [\<lparr>Time = 1000000000000, ResourceID = 1, Type = ''cpu_ms'', Value = 123\<rparr>,
          \<lparr>Time = 1000000000000, ResourceID = 0, Type = ''cpu_ms'', Value = 5\<rparr>,
          \<lparr>Time = 1000000000000, ResourceID = 0, Type = ''used_mb'', Value = 42\<rparr>,
          \<lparr>Time = 1000000000000, ResourceID = 0, Type = ''node_cpu'', Value = 7\<rparr>],
       maxSize = 10000\<rparr>)
   \<and> map (\<lambda>raw. fst (resolveUID raw)) (Metrics example_batch)
     = [''4f2b-3a19-4c-aa22-0f11e2d33c44'', ''ffff-0000'',
        ''11111111-2222-3333-4444-555555555555'', []]"
proof -
  have len: "length (Metrics example_batch) = 4" by (simp add: example_batch_def)
  have uids: "map (\<lambda>raw. fst (resolveUID raw)) (Metrics example_batch)
     = [''4f2b-3a19-4c-aa22-0f11e2d33c44'', ''ffff-0000'',
        ''11111111-2222-3333-4444-555555555555'', []]"
    using example_batch_uids by (simp add: example_batch_def)
  show ?thesis
    using resolution_miss_accepted
            [of example_batch ingest_syncer "\<lparr>metrics = [], maxSize = 10000\<rparr>"]
          example_batch_samples len uids
    by (simp add: ReadAll_def Add_def prod_eq_iff)
qed

lemma ffff_uid:
  "resolveUID (raw_metric ''cpu_ms'' 5 ''kubepods-podffff_0000.slice'' [] [] 1000)
     = (''ffff-0000'', ''pod'')"
  by (simp add: raw_metric_def resolveUID_def volume_condition_def HasPrefix_def ReplaceAll_def
                hex_or_underscore_def Let_def)

text \<open>
  The window is full and the metric is of a pod the caches do not hold: the batch is
  answered 202 and the window is as it was, no sample with \<open>resource_id = 0\<close> added.
\<close>

theorem full_ring_drops_sample_counterexample:
  "length (ReadAll full_ring) = maxSize full_ring
   \<and> resolveUID (raw_metric ''cpu_ms'' 5 ''kubepods-podffff_0000.slice'' [] [] 1000)
     = (''ffff-0000'', ''pod'')
   \<and> Syncer_GetResourceID ''ffff-0000'' ''pod'' ingest_syncer = None
   \<and> HandleIngest ''POST''
        (Some \<lparr>ReqNodeName = ''host-1'',
               Metrics = [raw_metric ''cpu_ms'' 5 ''kubepods-podffff_0000.slice'' [] [] 1000]\<rparr>)
        ingest_syncer full_ring
     = (202, full_ring)"
  using ffff_uid
  by (simp add: full_ring_def ReadAll_def HandleIngest_def Add_def Syncer_GetResourceID_def
                ingest_syncer_caches)

section \<open>Properties of the live view over an ingested window\<close>







text \<open>
  The proviso is needed: pods and claims draw their ids from separate tables, and a
  sample does not say which table its id is of. Here the only sample in the window is
  of the claim with id 1, resolved with kind \<open>pvc\<close>, and the pod with id 1 is returned,
  without containers.
\<close>

lemma claim_syncer_caches:
  "pods claim_syncer = [''p-1'' \<mapsto> 1]
   \<and> pvcs claim_syncer = [''11111111-2222-3333-4444-555555555555'' \<mapsto> 1]"
  by (simp add: claim_syncer_def claim_object_def syncPVC_def syncer_defs store_defs)

lemma claim_batch_uid:
  "map resolveUID (Metrics claim_batch)
   = [(''11111111-2222-3333-4444-555555555555'', ''pvc'')]"
  by (simp add: claim_batch_def raw_metric_def resolveUID_def volume_condition_def
                pvcVolumeRegex_def HasPrefix_def lower_hex_def Let_def)

lemma claim_ring_samples:
  "ReadAll claim_ring
   = [\<lparr>Time = 1000000000000, ResourceID = 1, Type = ''used_mb'', Value = 42\<rparr>]"
  using claim_batch_uid
  by (simp add: claim_ring_def claim_batch_def raw_metric_def HandleIngest_def ReadAll_def
                Add_def ingestMetric_def resolveID_def Syncer_GetResourceID_def
                claim_syncer_caches)

lemma pvc_sample_activates_pod:
  "map (\<lambda>raw. snd (resolveUID raw)) (Metrics claim_batch) = [''pvc'']
   \<and> map ResourceID (ReadAll claim_ring) = [1]
   \<and> handleLiveMetrics ''GET'' None None None 1004999999999 1005000000000
        (sqlite claim_syncer) claim_ring
     = Json \<lparr>RespTimestamp = 1005,
             Pods = [\<lparr>LivePod_ID = 1, LivePod_Name = ''web-xyz'', LivePod_UID = ''p-1'',
                      LivePod_Namespace = ''ns-a'', LivePod_Node = ''host-1'',
                      LivePod_Deployment = None, Containers = [], PVCs = []\<rparr>]\<rparr>"
  using claim_ring_samples claim_batch_uid
  by (simp add: claim_batch_def claim_syncer_def claim_object_def syncPVC_def live_defs
                syncer_defs store_defs del: set_filter set_map)

end
